theory Spec2Isabelle
  imports Complex_Main
begin

section \<open>Values exchanged with the server\<close>

text \<open>
  A decoded JSON body, as \<^verbatim>\<open>response.json()\<close> hands it to the SDK. A Python dict
  is kept as the list of its key/value pairs; \<^verbatim>\<open>d.get(k)\<close> is \<open>map_of\<close> on it.
  A JSON number with a fraction is kept as the real number it denotes.
\<close>

datatype json =
    JNull
  | JBool bool
  | JInt int
  | JFloat real
  | JStr string
  | JArr "json list"
  | JObj "(string \<times> json) list"

text \<open>Python truthiness, which decides every \<^verbatim>\<open>or\<close> and every \<^verbatim>\<open>if x\<close>.\<close>

fun truthy :: "json \<Rightarrow> bool" where
  "truthy JNull = False"
| "truthy (JBool b) = b"
| "truthy (JInt i) = (i \<noteq> 0)"
| "truthy (JFloat x) = (x \<noteq> 0)"
| "truthy (JStr s) = (s \<noteq> [])"
| "truthy (JArr xs) = (xs \<noteq> [])"
| "truthy (JObj kvs) = (kvs \<noteq> [])"

definition py_or :: "json \<Rightarrow> json \<Rightarrow> json" where
  "py_or a b = (if truthy a then a else b)"

definition dict_get :: "(string \<times> json) list \<Rightarrow> string \<Rightarrow> json" where
  "dict_get d k = (case map_of d k of None \<Rightarrow> JNull | Some v \<Rightarrow> v)"

text \<open>
  \<^verbatim>\<open>str(x)\<close>: a \<^verbatim>\<open>str\<close> is returned as it is; for every other value Python prints
  its \<^verbatim>\<open>repr\<close>, which is the interpreter's and is taken as the parameter \<open>repr\<close>.
\<close>

definition py_str :: "(json \<Rightarrow> string) \<Rightarrow> json \<Rightarrow> string" where
  "py_str repr j = (case j of JStr s \<Rightarrow> s | _ \<Rightarrow> repr j)"

section \<open>exceptions.py\<close>

datatype exc_class =
    Exception
  | ValueError
  | RuntimeError
  | IndexError
  | ArithmeticError
  | OverflowError
  | MenderError
  | MenderAPIError
  | MenderAuthenticationError
  | MenderAuthorizationError
  | MenderNotFoundError
  | MenderValidationError
  | MenderConflictError
  | MenderRateLimitError
  | MenderServerError
  | MenderConnectionError
  | MenderTimeoutError

text \<open>The direct base class of each exception class (\<open>Exception\<close> is the root).\<close>

fun base_class :: "exc_class \<Rightarrow> exc_class option" where
  "base_class Exception = None"
| "base_class ValueError = Some Exception"
| "base_class RuntimeError = Some Exception"
| "base_class IndexError = Some Exception"
| "base_class ArithmeticError = Some Exception"
| "base_class OverflowError = Some ArithmeticError"
| "base_class MenderError = Some Exception"
| "base_class MenderAPIError = Some MenderError"
| "base_class MenderAuthenticationError = Some MenderAPIError"
| "base_class MenderAuthorizationError = Some MenderAPIError"
| "base_class MenderNotFoundError = Some MenderAPIError"
| "base_class MenderValidationError = Some MenderAPIError"
| "base_class MenderConflictError = Some MenderAPIError"
| "base_class MenderRateLimitError = Some MenderAPIError"
| "base_class MenderServerError = Some MenderAPIError"
| "base_class MenderConnectionError = Some MenderError"
| "base_class MenderTimeoutError = Some MenderError"

text \<open>The class hierarchy has depth three, so three steps upwards reach every ancestor.\<close>

definition issubclass :: "exc_class \<Rightarrow> exc_class \<Rightarrow> bool" where
  "issubclass c d =
     (c = d \<or> base_class c = Some d
      \<or> Option.bind (base_class c) base_class = Some d
      \<or> Option.bind (Option.bind (base_class c) base_class) base_class = Some d)"

text \<open>
  An exception instance: its class and the attributes the constructors of
  \<^verbatim>\<open>exceptions.py\<close> set. \<open>status_code\<close>, \<open>response_body\<close> and \<open>request_id\<close> exist on
  \<open>MenderAPIError\<close> and its subclasses, \<open>retry_after\<close> on \<open>MenderRateLimitError\<close>; they are
  \<open>None\<close> (\<open>JNull\<close>) elsewhere.
\<close>

record exn =
  exc_class :: exc_class
  message :: json
  status_code :: "int option"
  response_body :: json
  request_id :: "string option"
  retry_after :: "int option"

definition isinstance :: "exn \<Rightarrow> exc_class \<Rightarrow> bool" where
  "isinstance e c = issubclass (exc_class e) c"

definition new_MenderAPIError :: "json \<Rightarrow> int \<Rightarrow> json \<Rightarrow> string option \<Rightarrow> exn" where
  "new_MenderAPIError msg status body rid =
     \<lparr>exc_class = MenderAPIError, message = msg, status_code = Some status,
      response_body = body, request_id = rid, retry_after = None\<rparr>"

definition new_MenderAuthenticationError :: "json \<Rightarrow> json \<Rightarrow> string option \<Rightarrow> exn" where
  "new_MenderAuthenticationError msg body rid =
     (new_MenderAPIError msg 401 body rid)\<lparr>exc_class := MenderAuthenticationError\<rparr>"

definition new_MenderAuthorizationError :: "json \<Rightarrow> json \<Rightarrow> string option \<Rightarrow> exn" where
  "new_MenderAuthorizationError msg body rid =
     (new_MenderAPIError msg 403 body rid)\<lparr>exc_class := MenderAuthorizationError\<rparr>"

definition new_MenderNotFoundError :: "json \<Rightarrow> json \<Rightarrow> string option \<Rightarrow> exn" where
  "new_MenderNotFoundError msg body rid =
     (new_MenderAPIError msg 404 body rid)\<lparr>exc_class := MenderNotFoundError\<rparr>"

definition new_MenderValidationError :: "json \<Rightarrow> json \<Rightarrow> string option \<Rightarrow> exn" where
  "new_MenderValidationError msg body rid =
     (new_MenderAPIError msg 400 body rid)\<lparr>exc_class := MenderValidationError\<rparr>"

definition new_MenderConflictError :: "json \<Rightarrow> json \<Rightarrow> string option \<Rightarrow> exn" where
  "new_MenderConflictError msg body rid =
     (new_MenderAPIError msg 409 body rid)\<lparr>exc_class := MenderConflictError\<rparr>"

definition new_MenderRateLimitError ::
    "json \<Rightarrow> json \<Rightarrow> string option \<Rightarrow> int option \<Rightarrow> exn" where
  "new_MenderRateLimitError msg body rid ra =
     (new_MenderAPIError msg 429 body rid)
       \<lparr>exc_class := MenderRateLimitError, retry_after := ra\<rparr>"

definition new_MenderServerError :: "json \<Rightarrow> int \<Rightarrow> json \<Rightarrow> string option \<Rightarrow> exn" where
  "new_MenderServerError msg status body rid =
     (new_MenderAPIError msg status body rid)\<lparr>exc_class := MenderServerError\<rparr>"

definition new_plain :: "exc_class \<Rightarrow> string \<Rightarrow> exn" where
  "new_plain c msg =
     \<lparr>exc_class = c, message = JStr msg, status_code = None,
      response_body = JNull, request_id = None, retry_after = None\<rparr>"

section \<open>The interpreter: floating-point numbers, sleeping, logging\<close>

text \<open>
  The delays of the retry policy are Python floats. Their arithmetic is the
  interpreter's and the platform's, so it is a parameter of the model: a record of the
  operations \<open>retry.py\<close> uses, over a type \<open>'f\<close> of float values (which may include
  infinities and NaN). \<open>float_lit x\<close> is the float written as the literal \<open>x\<close>;
  \<open>float_pow x n\<close> is \<^verbatim>\<open>x ** n\<close> for an int \<open>n \<ge> 0\<close>, which raises
  \<open>OverflowError\<close> when the result is out of range; \<open>float_lt\<close> is \<^verbatim>\<open><\<close>.

  The record also holds what else the \<^verbatim>\<open>except\<close> clause of the wrapper evaluates
  outside \<open>retry.py\<close>, each of which may raise: \<open>sleep_error d\<close> is the exception
  \<^verbatim>\<open>asyncio.sleep(d)\<close> raises, if any; \<open>name_error\<close> is the exception reading
  \<^verbatim>\<open>func.__name__\<close> raises, if any (a callable need not have a name);
  \<open>str_error e\<close> is the exception \<^verbatim>\<open>str(e)\<close> raises, if any. The two latter are
  the arguments of the log calls.
\<close>

record 'f platform =
  float_lit :: "real \<Rightarrow> 'f"
  float_pow :: "'f \<Rightarrow> nat \<Rightarrow> exn + 'f"
  float_mul :: "'f \<Rightarrow> 'f \<Rightarrow> 'f"
  float_add :: "'f \<Rightarrow> 'f \<Rightarrow> 'f"
  float_lt :: "'f \<Rightarrow> 'f \<Rightarrow> bool"
  sleep_error :: "'f \<Rightarrow> exn option"
  name_error :: "exn option"
  str_error :: "exn \<Rightarrow> exn option"

text \<open>\<^verbatim>\<open>min(a, b)\<close>: the first argument unless the second is smaller.\<close>

definition py_min :: "'f platform \<Rightarrow> 'f \<Rightarrow> 'f \<Rightarrow> 'f" where
  "py_min ops a b = (if float_lt ops b a then b else a)"

text \<open>
  \<^verbatim>\<open>float(k)\<close> for an int \<open>k\<close> is fixed by the number format: the double nearest to
  \<open>k\<close>, ties to the even mantissa, and \<open>OverflowError\<close> when that is not finite. A
  double has 53 mantissa bits: \<open>shift53 n\<close> is the number of low bits of \<open>n\<close> that do
  not fit.
\<close>

function shift53 :: "nat \<Rightarrow> nat" where
  "shift53 n = (if n < 2 ^ 53 then 0 else Suc (shift53 (n div 2)))"
  by pat_completeness auto
termination
  by (relation "measure id") auto

definition py_float :: "int \<Rightarrow> exn + real" where
  "py_float k =
     (let n = nat \<bar>k\<bar> in
      if 2 ^ 1024 \<le> n then Inl (new_plain OverflowError ''int too large to convert to float'')
      else if n \<le> 2 ^ 53 then Inr (real_of_int k)
      else
        (let e = shift53 n; q = n div 2 ^ e; r = n mod 2 ^ e;
             q' = (if 2 ^ e < 2 * r \<or> (2 * r = 2 ^ e \<and> odd q) then q + 1 else q);
             m = q' * 2 ^ e
         in if 2 ^ 1024 \<le> m
            then Inl (new_plain OverflowError ''int too large to convert to float'')
            else Inr (if k < 0 then - real m else real m)))"

section \<open>utils/retry.py\<close>

record 'f RetryConfig =
  max_retries :: int
  base_delay :: 'f
  max_delay :: 'f
  exponential_base :: 'f
  jitter :: bool
  retryable_exceptions :: "exc_class list"

definition RetryConfig_default :: "'f platform \<Rightarrow> 'f RetryConfig" where
  "RetryConfig_default ops =
     \<lparr>max_retries = 3, base_delay = float_lit ops 1, max_delay = float_lit ops 60,
      exponential_base = float_lit ops 2, jitter = True,
      retryable_exceptions =
        [MenderConnectionError, MenderTimeoutError, MenderServerError,
         MenderRateLimitError]\<rparr>"

text \<open>
  \<open>calculate_delay\<close> returns a float or raises what the conversion or the power
  raises. The argument \<open>rnd\<close> is the value \<^verbatim>\<open>random.random()\<close> returns; it is read
  only when jitter is on. \<open>attempt\<close> is a loop index of
  \<^verbatim>\<open>range(max_retries + 1)\<close>, hence a natural number.
\<close>

definition calculate_delay ::
    "'f platform \<Rightarrow> 'f RetryConfig \<Rightarrow> 'f \<Rightarrow> nat \<Rightarrow> int option \<Rightarrow> exn + 'f" where
  "calculate_delay ops config rnd attempt ra =
     (case ra of
        Some k \<Rightarrow>
          (case py_float k of Inl ex \<Rightarrow> Inl ex | Inr x \<Rightarrow> Inr (float_lit ops x))
      | None \<Rightarrow>
          (case float_pow ops (exponential_base config) attempt of
             Inl ex \<Rightarrow> Inl ex
           | Inr p \<Rightarrow>
               (let delay = py_min ops (float_mul ops (base_delay config) p) (max_delay config)
                in Inr (if jitter config
                        then float_mul ops delay (float_add ops (float_lit ops (1 / 2)) rnd)
                        else delay))))"

text \<open>\<^verbatim>\<open>except config.retryable_exceptions as e\<close>: the clause catches \<open>e\<close> when it is
  an instance of one of the listed classes.\<close>

definition is_retryable :: "'f RetryConfig \<Rightarrow> exn \<Rightarrow> bool" where
  "is_retryable config e = (\<exists>c \<in> set (retryable_exceptions config). isinstance e c)"

text \<open>
  The body of the \<^verbatim>\<open>except\<close> clause after the budget check: the delay is computed
  (from \<open>e.retry_after\<close> for a rate-limit error), the arguments of \<^verbatim>\<open>logger.info\<close>
  are evaluated (\<^verbatim>\<open>func.__name__\<close>, then \<^verbatim>\<open>str(e)\<close>), and the delay is slept.
  An exception raised in here leaves the wrapper. Writing the log record leaves no
  trace in the model.
\<close>

definition backoff :: "'f platform \<Rightarrow> 'f RetryConfig \<Rightarrow> 'f \<Rightarrow> nat \<Rightarrow> exn \<Rightarrow> exn + 'f" where
  "backoff ops config rnd attempt e =
     (case calculate_delay ops config rnd attempt
             (if isinstance e MenderRateLimitError then retry_after e else None) of
        Inl ex \<Rightarrow> Inl ex
      | Inr delay \<Rightarrow>
          (case name_error ops of
             Some ex \<Rightarrow> Inl ex
           | None \<Rightarrow>
               (case str_error ops e of
                  Some ex \<Rightarrow> Inl ex
                | None \<Rightarrow>
                    (case sleep_error ops delay of
                       Some ex \<Rightarrow> Inl ex
                     | None \<Rightarrow> Inr delay))))"

text \<open>
  What one run of the decorated function leaves behind: the value returned or the
  exception raised, how many times the wrapped function was called, and the delays
  slept, in order.
\<close>

record ('a, 'f) run =
  outcome :: "exn + 'a"
  calls :: nat
  slept :: "'f list"

text \<open>
  The \<^verbatim>\<open>for attempt in range(config.max_retries + 1)\<close> loop of \<open>wrapper\<close>.
  \<open>func i\<close> is what the \<open>i\<close>-th call of the wrapped coroutine does (it may differ from
  call to call), \<open>rnd i\<close> the random draw available in iteration \<open>i\<close>. The state of the
  loop is the index \<open>attempt\<close>, \<open>last_exception\<close> and the delays slept so far. When
  the budget is used up, \<^verbatim>\<open>logger.warning\<close> is called with \<^verbatim>\<open>func.__name__\<close>
  before the error is raised again.
\<close>

function retry_loop ::
    "'f platform \<Rightarrow> 'f RetryConfig \<Rightarrow> (nat \<Rightarrow> exn + 'a) \<Rightarrow> (nat \<Rightarrow> 'f) \<Rightarrow> nat
       \<Rightarrow> exn option \<Rightarrow> 'f list \<Rightarrow> ('a, 'f) run" where
  "retry_loop ops config func rnd attempt last_exception zs =
     (if int attempt < max_retries config + 1 then
        (case func attempt of
           Inr v \<Rightarrow> \<lparr>outcome = Inr v, calls = attempt + 1, slept = zs\<rparr>
         | Inl e \<Rightarrow>
             if is_retryable config e then
               if int attempt \<ge> max_retries config then
                 (case name_error ops of
                    Some ex \<Rightarrow> \<lparr>outcome = Inl ex, calls = attempt + 1, slept = zs\<rparr>
                  | None \<Rightarrow> \<lparr>outcome = Inl e, calls = attempt + 1, slept = zs\<rparr>)
               else
                 (case backoff ops config (rnd attempt) attempt e of
                    Inl ex \<Rightarrow> \<lparr>outcome = Inl ex, calls = attempt + 1, slept = zs\<rparr>
                  | Inr delay \<Rightarrow>
                      retry_loop ops config func rnd (attempt + 1) (Some e) (zs @ [delay]))
             else \<lparr>outcome = Inl e, calls = attempt + 1, slept = zs\<rparr>)
      else
        (case last_exception of
           Some e \<Rightarrow> \<lparr>outcome = Inl e, calls = attempt, slept = zs\<rparr>
         | None \<Rightarrow>
             \<lparr>outcome = Inl (new_plain RuntimeError ''Unexpected state in retry logic''),
              calls = attempt, slept = zs\<rparr>))"
  by pat_completeness auto
termination
  by (relation "measure (\<lambda>(ops, config, func, rnd, attempt, last_exception, zs).
                  nat (max_retries config + 1 - int attempt))") auto

definition retry_with_backoff ::
    "'f platform \<Rightarrow> 'f RetryConfig \<Rightarrow> (nat \<Rightarrow> exn + 'a) \<Rightarrow> (nat \<Rightarrow> 'f) \<Rightarrow> ('a, 'f) run" where
  "retry_with_backoff ops config func rnd = retry_loop ops config func rnd 0 None []"

text \<open>
  An instance for the concrete runs evaluated below: the float values that are real
  numbers, with exact operations; sleeping and logging raise nothing. It agrees with
  Python wherever every intermediate result is itself a double (nothing is rounded,
  nothing becomes infinite), the wrapped function has a name and the messages of the
  errors are strings, which is so in each of these runs.
\<close>

definition exact_platform :: "real platform" where
  "exact_platform =
     \<lparr>float_lit = (\<lambda>x. x),
      float_pow = (\<lambda>x n. if 2 ^ 1024 \<le> \<bar>x ^ n\<bar>
                          then Inl (new_plain OverflowError
                                 (''(34, '' @ [CHR 0x27] @ ''Numerical result out of range''
                                   @ [CHR 0x27] @ '')''))
                          else Inr (x ^ n)),
      float_mul = (\<lambda>x y. x * y),
      float_add = (\<lambda>x y. x + y),
      float_lt = (\<lambda>x y. x < y),
      sleep_error = (\<lambda>d. None),
      name_error = None,
      str_error = (\<lambda>e. None)\<rparr>"

section \<open>Built-ins of Python and of the HTTP library\<close>

text \<open>
  A string is the list of its code points, all below 256.

  \<^verbatim>\<open>int(s)\<close> for a string. In a string that is not pure ASCII the interpreter first
  turns every Unicode blank from 127 upwards (here \<open>0x85\<close> and \<open>0xA0\<close>) into a space and
  every other character from 127 upwards into \<open>?\<close>. Then the blanks of C's \<open>isspace\<close>
  are dropped at both ends, one sign is allowed, and the rest must be decimal digits,
  single underscores allowed between two digits. More than 4300 digits are refused
  (the interpreter's default limit). \<open>None\<close> stands for the \<open>ValueError\<close> Python
  raises.
\<close>

definition c_isspace :: "char \<Rightarrow> bool" where
  "c_isspace c = (c \<in> set [CHR '' '', CHR 0x09, CHR 0x0A, CHR 0x0B, CHR 0x0C, CHR 0x0D])"

definition to_ascii :: "string \<Rightarrow> string" where
  "to_ascii s =
     (if list_all (\<lambda>c. (of_char c :: nat) < 128) s then s
      else map (\<lambda>c. if (of_char c :: nat) < 127 then c
                     else if c = CHR 0x85 \<or> c = CHR 0xA0 then CHR '' ''
                     else CHR ''?'') s)"

definition is_digit :: "char \<Rightarrow> bool" where
  "is_digit c = (48 \<le> (of_char c :: nat) \<and> (of_char c :: nat) \<le> 57)"

definition strip :: "string \<Rightarrow> string" where
  "strip s = rev (dropWhile c_isspace (rev (dropWhile c_isspace s)))"

fun parse_digits :: "string \<Rightarrow> nat \<Rightarrow> bool \<Rightarrow> nat option" where
  "parse_digits [] acc after_digit = (if after_digit then Some acc else None)"
| "parse_digits (c # cs) acc after_digit =
     (if is_digit c then parse_digits cs (acc * 10 + (of_char c - 48)) True
      else if c = CHR ''_'' \<and> after_digit then parse_digits cs acc False
      else None)"

definition parse_limited :: "string \<Rightarrow> nat option" where
  "parse_limited ds =
     (if 4300 < length (filter is_digit ds) then None else parse_digits ds 0 False)"

definition py_int :: "string \<Rightarrow> int option" where
  "py_int s =
     (case strip (to_ascii s) of
        [] \<Rightarrow> None
      | c # cs \<Rightarrow>
          if c = CHR ''-'' then map_option (\<lambda>n. - int n) (parse_limited cs)
          else if c = CHR ''+'' then map_option int (parse_limited cs)
          else map_option int (parse_limited (c # cs)))"

text \<open>\<^verbatim>\<open>s.split(sep)\<close> for a one-character separator: never an empty list.\<close>

fun split_acc :: "char \<Rightarrow> string \<Rightarrow> string \<Rightarrow> string list" where
  "split_acc sep cur [] = [rev cur]"
| "split_acc sep cur (c # cs) =
     (if c = sep then rev cur # split_acc sep [] cs else split_acc sep (c # cur) cs)"

definition split :: "string \<Rightarrow> char \<Rightarrow> string list" where
  "split s sep = split_acc sep [] s"

text \<open>\<^verbatim>\<open>xs[-1]\<close>: the last element, \<open>IndexError\<close> (here \<open>None\<close>) on an empty list.\<close>

definition index_last :: "'a list \<Rightarrow> 'a option" where
  "index_last xs = (case xs of [] \<Rightarrow> None | _ \<Rightarrow> Some (last xs))"

text \<open>
  The headers of a response are the list of its header lines. The HTTP library looks a
  name up without regard to case and joins the values of repeated lines with a comma.
\<close>

type_synonym headers = "(string \<times> string) list"

definition lower_char :: "char \<Rightarrow> char" where
  "lower_char c =
     (case map_of (zip ''ABCDEFGHIJKLMNOPQRSTUVWXYZ'' ''abcdefghijklmnopqrstuvwxyz'') c of
        Some d \<Rightarrow> d
      | None \<Rightarrow> c)"

definition lower :: "string \<Rightarrow> string" where
  "lower s = map lower_char s"

fun join :: "string \<Rightarrow> string list \<Rightarrow> string" where
  "join sep [] = []"
| "join sep [x] = x"
| "join sep (x # y # ys) = x @ sep @ join sep (y # ys)"

definition headers_get :: "headers \<Rightarrow> string \<Rightarrow> string option" where
  "headers_get hs name =
     (let vs = map snd (filter (\<lambda>kv. lower (fst kv) = lower name) hs)
      in if vs = [] then None else Some (join '', '' vs))"

definition headers_get_default :: "headers \<Rightarrow> string \<Rightarrow> string \<Rightarrow> string" where
  "headers_get_default hs name dflt =
     (case headers_get hs name of None \<Rightarrow> dflt | Some v \<Rightarrow> v)"

text \<open>
  A response: \<open>resp_json\<close> is what \<^verbatim>\<open>response.json()\<close> returns, \<open>None\<close> when it raises
  (the body is not JSON); \<open>resp_text\<close> is \<^verbatim>\<open>response.text\<close>.
\<close>

record response =
  resp_status_code :: int
  resp_headers :: headers
  resp_json :: "json option"
  resp_text :: string

definition is_success :: "response \<Rightarrow> bool" where
  "is_success r = (200 \<le> resp_status_code r \<and> resp_status_code r \<le> 299)"

section \<open>utils/http.py\<close>

definition extract_error_message :: "(json \<Rightarrow> string) \<Rightarrow> json \<Rightarrow> json" where
  "extract_error_message repr body =
     (case body of
        JObj d \<Rightarrow>
          py_or (dict_get d ''error'')
            (py_or (dict_get d ''message'')
               (py_or (dict_get d ''Error'') (JStr (py_str repr body))))
      | _ \<Rightarrow> if truthy body then JStr (py_str repr body) else JStr ''Unknown error'')"

text \<open>
  \<open>_handle_error_response\<close> never returns: its value here is the exception it raises.
  The \<open>ValueError\<close> is the one \<^verbatim>\<open>int(retry_after)\<close> raises; its message field holds
  the rejected literal.
\<close>

definition handle_error_response ::
    "(json \<Rightarrow> string) \<Rightarrow> response \<Rightarrow> string option \<Rightarrow> exn" where
  "handle_error_response repr r rid =
     (let status = resp_status_code r;
          body = (case resp_json r of Some j \<Rightarrow> j | None \<Rightarrow> JStr (resp_text r));
          error_message = extract_error_message repr body
      in if status \<in> {400, 401, 403, 404, 409, 429} then
           if status = 429 then
             (case headers_get (resp_headers r) ''Retry-After'' of
                None \<Rightarrow> new_MenderRateLimitError error_message body rid None
              | Some ra \<Rightarrow>
                  if ra \<noteq> [] then
                    (case py_int ra of
                       None \<Rightarrow> new_plain ValueError ra
                     | Some k \<Rightarrow> new_MenderRateLimitError error_message body rid (Some k))
                  else new_MenderRateLimitError error_message body rid None)
           else if status = 400 then new_MenderValidationError error_message body rid
           else if status = 401 then new_MenderAuthenticationError error_message body rid
           else if status = 403 then new_MenderAuthorizationError error_message body rid
           else if status = 404 then new_MenderNotFoundError error_message body rid
           else new_MenderConflictError error_message body rid
         else if 500 \<le> status \<and> status < 600 then
           new_MenderServerError error_message status body rid
         else new_MenderAPIError error_message status body rid)"

text \<open>What \<^verbatim>\<open>client.request\<close> does in one attempt.\<close>

datatype transport =
    Returned response
  | ConnectError
  | TimeoutException

definition request ::
    "(json \<Rightarrow> string) \<Rightarrow> string \<Rightarrow> string \<Rightarrow> transport \<Rightarrow> exn + response" where
  "request repr base_url path t =
     (case t of
        Returned r \<Rightarrow>
          if \<not> is_success r
          then Inl (handle_error_response repr r (headers_get (resp_headers r) ''X-Request-Id''))
          else Inr r
      | ConnectError \<Rightarrow>
          Inl (new_plain MenderConnectionError (''Failed to connect to '' @ base_url))
      | TimeoutException \<Rightarrow>
          Inl (new_plain MenderTimeoutError (''Request to '' @ path @ '' timed out'')))"

text \<open>
  \<open>get\<close>, \<open>post\<close>, \<open>put\<close>, \<open>patch\<close> and \<open>delete\<close> are all \<open>_request\<close> under
  \<^verbatim>\<open>@retry_with_backoff()\<close>, that is, under the default configuration.
  \<open>ts i\<close> is what the transport does in the \<open>i\<close>-th attempt.
\<close>

definition http_call ::
    "'f platform \<Rightarrow> (json \<Rightarrow> string) \<Rightarrow> string \<Rightarrow> string \<Rightarrow> (nat \<Rightarrow> transport)
       \<Rightarrow> (nat \<Rightarrow> 'f) \<Rightarrow> (response, 'f) run" where
  "http_call ops repr base_url path ts rnd =
     retry_with_backoff ops (RetryConfig_default ops)
       (\<lambda>i. request repr base_url path (ts i)) rnd"

section \<open>models/common.py\<close>

record 'a PaginatedResponse =
  items :: "'a list"
  total_count :: "int option"
  page :: int
  per_page :: int
  has_more :: bool




section \<open>clients: pagination and resource creation\<close>

text \<open>
  \<open>iter_devices\<close>, \<open>iter_deployments\<close> and \<open>iter_artifacts\<close> are the same loop around
  \<open>list_devices\<close>, \<open>list_deployments\<close> and \<open>list_artifacts\<close>; \<open>fetch pg pp\<close> stands for
  that call, which returns a page or raises. The loop has no bound of its own, so it is
  run with fuel: \<open>None\<close> means that it is still fetching when the fuel is used up. The
  result lists the items yielded, the pages fetched and the exception that ended the
  iteration, if any.
\<close>

fun iter_pages ::
    "nat \<Rightarrow> (int \<Rightarrow> int \<Rightarrow> exn + 'a PaginatedResponse) \<Rightarrow> int \<Rightarrow> int
       \<Rightarrow> ('a list \<times> int list \<times> exn option) option" where
  "iter_pages 0 fetch pp pg = None"
| "iter_pages (Suc fuel) fetch pp pg =
     (case fetch pg pp of
        Inl e \<Rightarrow> Some ([], [pg], Some e)
      | Inr result \<Rightarrow>
          if \<not> has_more result \<or> int (length (items result)) < pp
          then Some (items result, [pg], None)
          else map_option (\<lambda>(ys, pgs, err). (items result @ ys, pg # pgs, err))
                 (iter_pages fuel fetch pp (pg + 1)))"

definition iter_devices ::
    "nat \<Rightarrow> (int \<Rightarrow> int \<Rightarrow> exn + 'a PaginatedResponse) \<Rightarrow> int
       \<Rightarrow> ('a list \<times> int list \<times> exn option) option" where
  "iter_devices fuel list_devices pp = iter_pages fuel list_devices pp 1"

text \<open>
  The three creating calls end alike: they post, and read the identifier off the
  \<open>Location\<close> header. \<open>posted\<close> is what \<^verbatim>\<open>self._http.post\<close> returned or raised.
\<close>

definition location_id :: "response \<Rightarrow> exn + string" where
  "location_id r =
     (case index_last (split (headers_get_default (resp_headers r) ''Location'' []) CHR ''/'') of
        None \<Rightarrow> Inl (new_plain IndexError ''list index out of range'')
      | Some seg \<Rightarrow> Inr seg)"

definition create_deployment :: "exn + response \<Rightarrow> exn + string" where
  "create_deployment posted = (case posted of Inl e \<Rightarrow> Inl e | Inr r \<Rightarrow> location_id r)"

definition create_filter :: "exn + response \<Rightarrow> exn + string" where
  "create_filter posted = (case posted of Inl e \<Rightarrow> Inl e | Inr r \<Rightarrow> location_id r)"

definition upload_artifact_file :: "exn + response \<Rightarrow> exn + string" where
  "upload_artifact_file posted = (case posted of Inl e \<Rightarrow> Inl e | Inr r \<Rightarrow> location_id r)"

text \<open>
  \<open>upload_artifact\<close> opens the file when it is given a path and returns what
  \<open>_upload_artifact_file\<close> returns, in both of its branches.
\<close>

definition upload_artifact :: "exn + response \<Rightarrow> exn + string" where
  "upload_artifact posted = upload_artifact_file posted"

text \<open>The final path segment of a string: what follows its last slash.\<close>

definition final_segment :: "string \<Rightarrow> string" where
  "final_segment s = rev (takeWhile (\<lambda>c. c \<noteq> CHR ''/'') (rev s))"

declare retry_loop.simps [simp del]

section \<open>Identifiers of created resources\<close>

lemma split_acc_last:
  "sep \<notin> set cur \<Longrightarrow>
   split_acc sep cur s \<noteq> [] \<and>
   last (split_acc sep cur s) = rev (takeWhile (\<lambda>c. c \<noteq> sep) (rev s @ cur))"
proof (induction s arbitrary: cur)
  case Nil
  then have *: "takeWhile (\<lambda>c. c \<noteq> sep) cur = cur"
    by (auto simp: takeWhile_eq_all_conv)
  show ?case by (simp add: *)
next
  case (Cons c cs)
  show ?case
  proof (cases "c = sep")
    case True
    have "sep \<notin> set []" by simp
    from Cons.IH [OF this] True show ?thesis
      by (simp add: takeWhile_tail)
  next
    case False
    with Cons.prems have "sep \<notin> set (c # cur)" by simp
    from Cons.IH [OF this] False show ?thesis by simp
  qed
qed

lemma index_last_split: "index_last (split s sep) = Some (rev (takeWhile (\<lambda>c. c \<noteq> sep) (rev s)))"
  using split_acc_last [of sep "[]" s]
  by (cases "split_acc sep [] s") (simp_all add: index_last_def split_def)

lemma location_id_final_segment:
  "location_id r = Inr (final_segment (headers_get_default (resp_headers r) ''Location'' []))"
  by (simp add: location_id_def index_last_split final_segment_def)

text \<open>
  C9. Every creating call that gets a response returns the final path segment of the
  \<open>Location\<close> header (of the empty string when the header is missing); the value
  \<open>/deployments/abc-123\<close> yields \<open>abc-123\<close>.
\<close>

theorem created_id_is_final_segment:
  "create_deployment (Inr r) =
     Inr (final_segment (headers_get_default (resp_headers r) ''Location'' []))
   \<and> create_filter (Inr r) =
     Inr (final_segment (headers_get_default (resp_headers r) ''Location'' []))
   \<and> upload_artifact (Inr r) =
     Inr (final_segment (headers_get_default (resp_headers r) ''Location'' []))
   \<and> create_deployment
       (Inr \<lparr>resp_status_code = 201, resp_headers = [(''Location'', ''/deployments/abc-123'')],
             resp_json = None, resp_text = []\<rparr>) = Inr ''abc-123''"
  by (simp add: create_deployment_def create_filter_def upload_artifact_def
      upload_artifact_file_def location_id_final_segment final_segment_def
      headers_get_default_def headers_get_def)

text \<open>
  C10. A successful response without a \<open>Location\<close> header makes each creating call
  return the empty string; none of them raises.
\<close>

theorem created_id_without_location:
  assumes "headers_get (resp_headers r) ''Location'' = None"
  shows "create_deployment (Inr r) = Inr []
       \<and> create_filter (Inr r) = Inr []
       \<and> upload_artifact (Inr r) = Inr []"
  using assms
  by (simp add: create_deployment_def create_filter_def upload_artifact_def
      upload_artifact_file_def location_id_final_segment final_segment_def
      headers_get_default_def)

theorem created_id_without_location_witness:
  "headers_get [(''Content-Type'', ''application/json'')] ''Location'' = None
   \<and> create_deployment
       (Inr \<lparr>resp_status_code = 201, resp_headers = [(''Content-Type'', ''application/json'')],
             resp_json = None, resp_text = []\<rparr>) = Inr []
   \<and> create_filter
       (Inr \<lparr>resp_status_code = 201, resp_headers = [(''Content-Type'', ''application/json'')],
             resp_json = None, resp_text = []\<rparr>) = Inr []
   \<and> upload_artifact
       (Inr \<lparr>resp_status_code = 201, resp_headers = [(''Content-Type'', ''application/json'')],
             resp_json = None, resp_text = []\<rparr>) = Inr []"
proof -
  have h: "headers_get (resp_headers \<lparr>resp_status_code = 201,
             resp_headers = [(''Content-Type'', ''application/json'')],
             resp_json = None, resp_text = []\<rparr>) ''Location'' = None"
    by (simp add: headers_get_def lower_def lower_char_def)
  from created_id_without_location [OF h] h show ?thesis by simp
qed

section \<open>Classification of a rate-limited response\<close>

text \<open>
  The parts of the rate-limit classification that hold: without the header the error
  carries no delay, with a header that parses as an integer it carries that integer.
\<close>

lemma rate_limit_retry_after_parsed:
  assumes "resp_status_code r = 429"
  shows "headers_get (resp_headers r) ''Retry-After'' = None \<Longrightarrow>
           exc_class (handle_error_response repr r rid) = MenderRateLimitError
           \<and> retry_after (handle_error_response repr r rid) = None"
    and "headers_get (resp_headers r) ''Retry-After'' = Some ra \<Longrightarrow> py_int ra = Some k \<Longrightarrow>
           exc_class (handle_error_response repr r rid) = MenderRateLimitError
           \<and> retry_after (handle_error_response repr r rid) = Some k"
  using assms
  by (auto simp: handle_error_response_def Let_def new_MenderRateLimitError_def
      new_MenderAPIError_def py_int_def strip_def to_ascii_def)

text \<open>
  C4 fails on the code where the header does not parse: \<^verbatim>\<open>int(retry_after)\<close> is not
  guarded, so for \<open>Retry-After: Wed, 21 Oct 2015 07:28:00 GMT\<close> the classifier raises
  \<open>ValueError\<close> instead of a \<open>MenderRateLimitError\<close> without a delay.
\<close>

theorem rate_limit_unparsable_retry_after:
  "handle_error_response (\<lambda>j. ''{}'')
     \<lparr>resp_status_code = 429,
      resp_headers = [(''Retry-After'', ''Wed, 21 Oct 2015 07:28:00 GMT'')],
      resp_json = None, resp_text = ''slow down''\<rparr> None
   = new_plain ValueError ''Wed, 21 Oct 2015 07:28:00 GMT''"
  by (simp add: handle_error_response_def Let_def headers_get_def py_int_def strip_def
      to_ascii_def c_isspace_def is_digit_def parse_limited_def)

section \<open>The message of an error\<close>

text \<open>
  C7 (as amended). For a dict body the message is the value of \<open>error\<close> if that key is
  present with a truthy value, else the value of \<open>message\<close> likewise, else the value of
  \<open>Error\<close> likewise, else the stringified body. For any other body it is the
  stringified body if the body is truthy, and \<open>Unknown error\<close> otherwise.
\<close>

theorem extract_error_message_preference:
  "(body = JObj d \<and> map_of d ''error'' = Some v \<and> truthy v \<longrightarrow>
      extract_error_message repr body = v)
   \<and> (body = JObj d \<and> (\<forall>u. map_of d ''error'' = Some u \<longrightarrow> \<not> truthy u)
        \<and> map_of d ''message'' = Some v \<and> truthy v \<longrightarrow>
      extract_error_message repr body = v)
   \<and> (body = JObj d \<and> (\<forall>u. map_of d ''error'' = Some u \<longrightarrow> \<not> truthy u)
        \<and> (\<forall>u. map_of d ''message'' = Some u \<longrightarrow> \<not> truthy u)
        \<and> map_of d ''Error'' = Some v \<and> truthy v \<longrightarrow>
      extract_error_message repr body = v)
   \<and> (body = JObj d \<and> (\<forall>u. map_of d ''error'' = Some u \<longrightarrow> \<not> truthy u)
        \<and> (\<forall>u. map_of d ''message'' = Some u \<longrightarrow> \<not> truthy u)
        \<and> (\<forall>u. map_of d ''Error'' = Some u \<longrightarrow> \<not> truthy u) \<longrightarrow>
      extract_error_message repr body = JStr (repr body))
   \<and> ((\<forall>d'. body \<noteq> JObj d') \<and> truthy body \<longrightarrow>
      extract_error_message repr body = JStr (py_str repr body))
   \<and> ((\<forall>d'. body \<noteq> JObj d') \<and> \<not> truthy body \<longrightarrow>
      extract_error_message repr body = JStr ''Unknown error'')"
proof -
  have get: "\<And>k. truthy (dict_get d k) \<longleftrightarrow> (\<exists>u. map_of d k = Some u \<and> truthy u)"
    by (simp add: dict_get_def split: option.splits)
  have val: "\<And>k u. map_of d k = Some u \<Longrightarrow> dict_get d k = u"
    by (simp add: dict_get_def)
  have nd: "(\<forall>d'. body \<noteq> JObj d') \<Longrightarrow>
      extract_error_message repr body =
        (if truthy body then JStr (py_str repr body) else JStr ''Unknown error'')"
    by (cases body) (simp_all add: extract_error_message_def)
  have dict: "extract_error_message repr (JObj d) =
        py_or (dict_get d ''error'')
          (py_or (dict_get d ''message'')
             (py_or (dict_get d ''Error'') (JStr (repr (JObj d)))))"
    by (simp add: extract_error_message_def py_str_def)
  show ?thesis
  proof (intro conjI impI)
    assume "(\<forall>d'. body \<noteq> JObj d') \<and> truthy body"
    then show "extract_error_message repr body = JStr (py_str repr body)"
      by (simp add: nd)
  next
    assume "(\<forall>d'. body \<noteq> JObj d') \<and> \<not> truthy body"
    then show "extract_error_message repr body = JStr ''Unknown error''"
      by (simp add: nd)
  qed (auto simp: dict py_or_def get val)
qed

theorem extract_error_message_preference_witness:
  "extract_error_message (\<lambda>j. ''{}'') (JObj [(''error'', JStr ''bad input'')]) = JStr ''bad input''
   \<and> extract_error_message (\<lambda>j. ''{}'') (JObj [(''message'', JStr ''no'')]) = JStr ''no''
   \<and> extract_error_message (\<lambda>j. ''{}'') (JObj [(''Error'', JStr ''denied'')]) = JStr ''denied''
   \<and> extract_error_message (\<lambda>j. ''{}'') (JObj [(''detail'', JInt 3)]) = JStr ''{}''
   \<and> extract_error_message (\<lambda>j. ''{}'') (JStr ''gateway down'') = JStr ''gateway down''
   \<and> extract_error_message (\<lambda>j. ''{}'') JNull = JStr ''Unknown error''"
proof -
  note t = extract_error_message_preference
  have a: "extract_error_message (\<lambda>j. ''{}'') (JObj [(''error'', JStr ''bad input'')]) = JStr ''bad input''"
    using t [of "JObj [(''error'', JStr ''bad input'')]" "[(''error'', JStr ''bad input'')]"
              "JStr ''bad input''" "\<lambda>j. ''{}''", THEN conjunct1]
    by simp
  have b: "extract_error_message (\<lambda>j. ''{}'') (JObj [(''message'', JStr ''no'')]) = JStr ''no''"
    using t [of "JObj [(''message'', JStr ''no'')]" "[(''message'', JStr ''no'')]"
              "JStr ''no''" "\<lambda>j. ''{}''", THEN conjunct2, THEN conjunct1]
    by simp
  have c: "extract_error_message (\<lambda>j. ''{}'') (JObj [(''Error'', JStr ''denied'')]) = JStr ''denied''"
    using t [of "JObj [(''Error'', JStr ''denied'')]" "[(''Error'', JStr ''denied'')]"
              "JStr ''denied''" "\<lambda>j. ''{}''", THEN conjunct2, THEN conjunct2, THEN conjunct1]
    by simp
  have d: "extract_error_message (\<lambda>j. ''{}'') (JObj [(''detail'', JInt 3)]) = JStr ''{}''"
    using t [of "JObj [(''detail'', JInt 3)]" "[(''detail'', JInt 3)]"
              JNull "\<lambda>j. ''{}''", THEN conjunct2, THEN conjunct2, THEN conjunct2, THEN conjunct1]
    by simp
  have e: "extract_error_message (\<lambda>j. ''{}'') (JStr ''gateway down'') = JStr ''gateway down''"
    using t [of "JStr ''gateway down''" "[]" JNull "\<lambda>j. ''{}''",
              THEN conjunct2, THEN conjunct2, THEN conjunct2, THEN conjunct2, THEN conjunct1]
    by (simp add: py_str_def)
  have f: "extract_error_message (\<lambda>j. ''{}'') JNull = JStr ''Unknown error''"
    using t [of JNull "[]" JNull "\<lambda>j. ''{}''",
              THEN conjunct2, THEN conjunct2, THEN conjunct2, THEN conjunct2, THEN conjunct2]
    by simp
  from a b c d e f show ?thesis by simp
qed

text \<open>
  C7 as stated fails for a field that is present but falsy: the chain of \<^verbatim>\<open>or\<close> skips
  it, so the body \<open>{"error": "", "message": "boom"}\<close> yields \<open>boom\<close>, not the \<open>error\<close>
  field.
\<close>

theorem extract_error_message_falsy_error_field:
  "extract_error_message (\<lambda>j. ''{}'')
     (JObj [(''error'', JStr ''''), (''message'', JStr ''boom'')]) = JStr ''boom''"
  by (simp add: extract_error_message_def py_or_def dict_get_def)

section \<open>Pagination\<close>

lemma iter_pages_stops:
  assumes "\<forall>j<n. fetch (pg + int j) pp = Inr (ps j) \<and> has_more (ps j)
                \<and> pp \<le> int (length (items (ps j)))"
    and "fetch (pg + int n) pp = Inr (ps n)"
    and "\<not> has_more (ps n) \<or> int (length (items (ps n))) < pp"
    and "n < fuel"
  shows "iter_pages fuel fetch pp pg =
           Some (concat (map (\<lambda>j. items (ps j)) [0..<Suc n]),
                 map (\<lambda>j. pg + int j) [0..<Suc n], None)"
  using assms
proof (induction n arbitrary: fuel pg ps)
  case 0
  then obtain f where "fuel = Suc f" by (cases fuel) auto
  with 0 show ?case by auto
next
  case (Suc n)
  then obtain f where f: "fuel = Suc f" "n < f" by (cases fuel) auto
  from Suc.prems(1) have p0: "fetch pg pp = Inr (ps 0)" "has_more (ps 0)"
      "pp \<le> int (length (items (ps 0)))"
    by (metis add.right_neutral of_nat_0 zero_less_Suc)+
  have a: "\<forall>j<n. fetch (pg + 1 + int j) pp = Inr (ps (Suc j)) \<and> has_more (ps (Suc j))
                \<and> pp \<le> int (length (items (ps (Suc j))))"
  proof (intro allI impI)
    fix j assume "j < n"
    then have "Suc j < Suc n" by simp
    with Suc.prems(1) have "fetch (pg + int (Suc j)) pp = Inr (ps (Suc j)) \<and> has_more (ps (Suc j))
                \<and> pp \<le> int (length (items (ps (Suc j))))" by blast
    then show "fetch (pg + 1 + int j) pp = Inr (ps (Suc j)) \<and> has_more (ps (Suc j))
                \<and> pp \<le> int (length (items (ps (Suc j))))"
      by (simp add: ac_simps)
  qed
  have b: "fetch (pg + 1 + int n) pp = Inr (ps (Suc n))"
    using Suc.prems(2) by (simp add: ac_simps)
  have c: "\<not> has_more (ps (Suc n)) \<or> int (length (items (ps (Suc n)))) < pp"
    using Suc.prems(3) .
  have ih: "iter_pages f fetch pp (pg + 1) =
           Some (concat (map (\<lambda>j. items (ps (Suc j))) [0..<Suc n]),
                 map (\<lambda>j. pg + 1 + int j) [0..<Suc n], None)"
    using Suc.IH [of "pg + 1" "\<lambda>j. ps (Suc j)" f, OF a b c f(2)] .
  have m1: "map (\<lambda>j. items (ps j)) [0..<Suc (Suc n)] =
            items (ps 0) # map (\<lambda>j. items (ps (Suc j))) [0..<Suc n]"
    by (rule map_upt_Suc)
  have m2: "map (\<lambda>j. pg + int j) [0..<Suc (Suc n)] =
            pg # map (\<lambda>j. pg + 1 + int j) [0..<Suc n]"
    using map_upt_Suc [of "\<lambda>j. pg + int j" "Suc n"] by (simp add: ac_simps)
  show ?case
    unfolding f(1) m1 m2 using p0 ih by simp
qed

lemma iter_pages_running:
  assumes "\<forall>j<fuel. fetch (pg + int j) pp = Inr (ps j) \<and> has_more (ps j)
                \<and> pp \<le> int (length (items (ps j)))"
  shows "iter_pages fuel fetch pp pg = None"
  using assms
proof (induction fuel arbitrary: pg ps)
  case 0
  then show ?case by simp
next
  case (Suc f)
  from Suc.prems have p0: "fetch pg pp = Inr (ps 0)" "has_more (ps 0)"
      "pp \<le> int (length (items (ps 0)))"
    by (metis add.right_neutral of_nat_0 zero_less_Suc)+
  have a: "\<forall>j<f. fetch (pg + 1 + int j) pp = Inr (ps (Suc j)) \<and> has_more (ps (Suc j))
                \<and> pp \<le> int (length (items (ps (Suc j))))"
  proof (intro allI impI)
    fix j assume "j < f"
    then have "Suc j < Suc f" by simp
    with Suc.prems have "fetch (pg + int (Suc j)) pp = Inr (ps (Suc j)) \<and> has_more (ps (Suc j))
                \<and> pp \<le> int (length (items (ps (Suc j))))" by blast
    then show "fetch (pg + 1 + int j) pp = Inr (ps (Suc j)) \<and> has_more (ps (Suc j))
                \<and> pp \<le> int (length (items (ps (Suc j))))"
      by (simp add: ac_simps)
  qed
  from Suc.IH [of "pg + 1" "\<lambda>j. ps (Suc j)", OF a] p0 show ?case by simp
qed

text \<open>
  C6. Let the pages 1 to \<open>n\<close> be fetched full and with \<open>has_more\<close> set, and let page
  \<open>n + 1\<close> either report \<open>has_more\<close> false or hold fewer items than the page size. Then
  the iteration yields the items of the pages 1 to \<open>n + 1\<close> in order, fetches exactly
  these pages and ends. As long as every page is full with \<open>has_more\<close> set, it goes on
  fetching. (\<open>ps j\<close> is page \<open>j + 1\<close>.) The witness is the run with page size 20 and
  pages of 20, 20 and 5 items, each reporting \<open>has_more\<close>: 45 items, pages 1, 2 and 3.
\<close>

theorem iter_devices_pages:
  "((\<forall>j<n. fetch (1 + int j) pp = Inr (ps j) \<and> has_more (ps j)
           \<and> pp \<le> int (length (items (ps j))))
     \<and> fetch (1 + int n) pp = Inr (ps n)
     \<and> (\<not> has_more (ps n) \<or> int (length (items (ps n))) < pp)
     \<and> n < fuel \<longrightarrow>
    iter_devices fuel fetch pp =
      Some (concat (map (\<lambda>j. items (ps j)) [0..<Suc n]),
            map (\<lambda>j. 1 + int j) [0..<Suc n], None))
   \<and> ((\<forall>j<fuel. fetch (1 + int j) pp = Inr (ps j) \<and> has_more (ps j)
           \<and> pp \<le> int (length (items (ps j)))) \<longrightarrow>
      iter_devices fuel fetch pp = None)"
  unfolding iter_devices_def
  using iter_pages_stops [of n fetch 1 pp ps fuel] iter_pages_running [of fuel fetch 1 pp ps]
  by blast

theorem iter_devices_pages_witness:
  "iter_devices 10
     (\<lambda>pg pp. if pg \<le> 3
        then Inr \<lparr>items = replicate (if pg < 3 then 20 else 5) pg, total_count = None,
                  page = pg, per_page = pp, has_more = True\<rparr>
        else Inl (new_plain MenderTimeoutError ''Request to /devices timed out''))
     20
   = Some (replicate 20 1 @ replicate 20 2 @ replicate 5 3, [1, 2, 3], None)
   \<and> length (replicate 20 (1::int) @ replicate 20 2 @ replicate 5 3) = 45
   \<and> iter_devices 4
       (\<lambda>pg pp. Inr \<lparr>items = replicate 20 pg, total_count = None, page = pg,
                      per_page = pp, has_more = True\<rparr>)
       20 = None"
proof -
  let ?fetch = "\<lambda>(pg::int) (pp::int). if pg \<le> 3
        then Inr \<lparr>items = replicate (if pg < 3 then 20 else 5) pg, total_count = None,
                  page = pg, per_page = pp, has_more = True\<rparr>
        else Inl (new_plain MenderTimeoutError ''Request to /devices timed out'')"
  let ?ps = "\<lambda>j::nat. \<lparr>items = replicate (if j < 2 then 20 else 5) (1 + int j),
                 total_count = None, page = 1 + int j, per_page = (20::int), has_more = True\<rparr>"
  let ?fetch2 = "\<lambda>(pg::int) (pp::int). (Inr \<lparr>items = replicate 20 pg, total_count = None,
                 page = pg, per_page = pp, has_more = True\<rparr> :: exn + int PaginatedResponse)"
  let ?ps2 = "\<lambda>j::nat. \<lparr>items = replicate 20 (1 + int j),
                 total_count = None, page = 1 + int j, per_page = (20::int), has_more = True\<rparr>"
  have h1: "\<forall>j<2. ?fetch (1 + int j) 20 = Inr (?ps j) \<and> has_more (?ps j)
           \<and> 20 \<le> int (length (items (?ps j)))"
    by auto
  have h2: "?fetch (1 + int 2) 20 = Inr (?ps 2)" by simp
  have h3: "\<not> has_more (?ps 2) \<or> int (length (items (?ps 2))) < 20" by simp
  have h4: "(2::nat) < 10" by simp
  have u: "[0..<Suc 2] = [0, 1, 2]" by (simp add: upt_rec)
  have a: "iter_devices 10 ?fetch 20 =
      Some (replicate 20 1 @ replicate 20 2 @ replicate 5 3, [1, 2, 3], None)"
    using iter_devices_pages [of 2 ?fetch 20 ?ps 10, THEN conjunct1] h1 h2 h3 h4
    unfolding u by simp
  have k: "\<forall>j<4. ?fetch2 (1 + int j) 20 = Inr (?ps2 j) \<and> has_more (?ps2 j)
           \<and> 20 \<le> int (length (items (?ps2 j)))"
    by simp
  have b: "iter_devices 4 ?fetch2 20 = None"
    using iter_devices_pages [of 0 ?fetch2 20 ?ps2 4, THEN conjunct2] k by simp
  from a b show ?thesis by simp
qed

section \<open>Properties of the retry loop\<close>

lemma retry_loop_calls_upper:
  "int attempt \<le> max_retries config + 1 \<Longrightarrow>
   int (calls (retry_loop ops config func rnd attempt le zs)) \<le> max_retries config + 1"
proof (induction ops config func rnd attempt le zs rule: retry_loop.induct)
  case (1 ops config func rnd attempt le zs)
  show ?case
  proof (cases "int attempt < max_retries config + 1")
    case False
    with "1.prems" show ?thesis
      by (subst retry_loop.simps) (simp split: option.splits)
  next
    case True
    show ?thesis
    proof (cases "func attempt")
      case (Inr v)
      with True show ?thesis by (subst retry_loop.simps) simp
    next
      case (Inl e)
      show ?thesis
      proof (cases "is_retryable config e \<and> \<not> int attempt \<ge> max_retries config")
        case False
        with True Inl show ?thesis
          by (subst retry_loop.simps) (auto split: option.splits)
      next
        case go: True
        show ?thesis
        proof (cases "backoff ops config (rnd attempt) attempt e")
          case (Inl ex)
          with True \<open>func attempt = Inl e\<close> go show ?thesis
            by (subst retry_loop.simps) simp
        next
          case (Inr delay)
          from go have "int (attempt + 1) \<le> max_retries config + 1" by simp
          with "1.IH" [OF True \<open>func attempt = Inl e\<close> _ _ Inr] go
          have "int (calls (retry_loop ops config func rnd (attempt + 1) (Some e) (zs @ [delay])))
                \<le> max_retries config + 1"
            by simp
          with True \<open>func attempt = Inl e\<close> go Inr show ?thesis
            by (subst retry_loop.simps) simp
        qed
      qed
    qed
  qed
qed

lemma retry_loop_retries:
  assumes "int attempt < max_retries config" and "func attempt = Inl e"
    and "is_retryable config e" and "backoff ops config (rnd attempt) attempt e = Inr d"
  shows "retry_loop ops config func rnd attempt le zs =
         retry_loop ops config func rnd (attempt + 1) (Some e) (zs @ [d])"
  using assms by (subst retry_loop.simps) simp

lemma retry_loop_backoff_raises:
  assumes "int attempt < max_retries config" and "func attempt = Inl e"
    and "is_retryable config e" and "backoff ops config (rnd attempt) attempt e = Inl ex"
  shows "retry_loop ops config func rnd attempt le zs =
         \<lparr>outcome = Inl ex, calls = attempt + 1, slept = zs\<rparr>"
  using assms by (subst retry_loop.simps) simp

lemma retry_loop_ends:
  assumes "int attempt \<le> max_retries config"
    and "\<forall>e. func attempt = Inl e \<longrightarrow>
           \<not> is_retryable config e \<or> (int attempt = max_retries config \<and> name_error ops = None)"
  shows "retry_loop ops config func rnd attempt le zs =
         \<lparr>outcome = func attempt, calls = attempt + 1, slept = zs\<rparr>"
  using assms by (subst retry_loop.simps) (auto split: sum.splits)

text \<open>The loop ends at the first attempt that succeeds, raises an error that is not
  retryable, or is the last one of the budget, provided every backoff before it
  completes.\<close>

lemma retry_loop_stops_at:
  assumes "attempt \<le> m" and "int m \<le> max_retries config"
    and "\<forall>i. attempt \<le> i \<and> i < m \<longrightarrow>
           (\<exists>e d. func i = Inl e \<and> is_retryable config e
                  \<and> backoff ops config (rnd i) i e = Inr d)"
    and "\<forall>e. func m = Inl e \<longrightarrow>
           \<not> is_retryable config e \<or> (int m = max_retries config \<and> name_error ops = None)"
  shows "outcome (retry_loop ops config func rnd attempt le zs) = func m
       \<and> calls (retry_loop ops config func rnd attempt le zs) = m + 1"
  using assms
proof (induction "m - attempt" arbitrary: attempt le zs)
  case 0
  then have [simp]: "attempt = m" by simp
  from 0 show ?case
    using retry_loop_ends [of m config func ops rnd le zs] by simp
next
  case (Suc k)
  then have lt: "attempt < m" by simp
  with Suc.prems obtain e d where e: "func attempt = Inl e" "is_retryable config e"
      "backoff ops config (rnd attempt) attempt e = Inr d" by blast
  from lt Suc.prems have b: "int attempt < max_retries config" by simp
  have k: "k = m - (attempt + 1)" using Suc.hyps by simp
  have "attempt + 1 \<le> m" using lt by simp
  moreover have "\<forall>i. attempt + 1 \<le> i \<and> i < m \<longrightarrow>
           (\<exists>e d. func i = Inl e \<and> is_retryable config e
                  \<and> backoff ops config (rnd i) i e = Inr d)"
    using Suc.prems(3) by auto
  ultimately show ?case
    unfolding retry_loop_retries [of attempt config func e ops rnd d le zs, OF b e]
    using Suc.hyps(1) [OF k] Suc.prems(2,4) by blast
qed

lemma retry_loop_advance:
  assumes "attempt \<le> m" and "int m \<le> max_retries config"
    and "\<forall>i. attempt \<le> i \<and> i < m \<longrightarrow>
           (\<exists>e d. func i = Inl e \<and> is_retryable config e
                  \<and> backoff ops config (rnd i) i e = Inr d)"
  shows "\<exists>le' zs'. retry_loop ops config func rnd attempt le zs =
                   retry_loop ops config func rnd m le' zs'"
  using assms
proof (induction "m - attempt" arbitrary: attempt le zs)
  case 0
  then show ?case by auto
next
  case (Suc k)
  then have lt: "attempt < m" by simp
  with Suc.prems obtain e d where e: "func attempt = Inl e" "is_retryable config e"
      "backoff ops config (rnd attempt) attempt e = Inr d" by blast
  from lt Suc.prems have b: "int attempt < max_retries config" by simp
  have k: "k = m - (attempt + 1)" using Suc.hyps by simp
  have "attempt + 1 \<le> m" using lt by simp
  moreover have "\<forall>i. attempt + 1 \<le> i \<and> i < m \<longrightarrow>
           (\<exists>e d. func i = Inl e \<and> is_retryable config e
                  \<and> backoff ops config (rnd i) i e = Inr d)"
    using Suc.prems(3) by auto
  ultimately show ?case
    unfolding retry_loop_retries [of attempt config func e ops rnd d le zs, OF b e]
    using Suc.hyps(1) [OF k] Suc.prems(2) by blast
qed

lemma retry_loop_calls_lower:
  "int attempt \<le> max_retries config \<Longrightarrow>
   attempt + 1 \<le> calls (retry_loop ops config func rnd attempt le zs)"
proof (induction ops config func rnd attempt le zs rule: retry_loop.induct)
  case (1 ops config func rnd attempt le zs)
  then have True: "int attempt < max_retries config + 1" by simp
  show ?case
  proof (cases "func attempt")
    case (Inr v)
    with True show ?thesis by (subst retry_loop.simps) simp
  next
    case (Inl e)
    show ?thesis
    proof (cases "is_retryable config e \<and> \<not> int attempt \<ge> max_retries config")
      case False
      with True Inl show ?thesis
          by (subst retry_loop.simps) (auto split: option.splits)
    next
      case go: True
      show ?thesis
      proof (cases "backoff ops config (rnd attempt) attempt e")
        case (Inl ex)
        with True \<open>func attempt = Inl e\<close> go show ?thesis
          by (subst retry_loop.simps) simp
      next
        case (Inr delay)
        from go have "int (attempt + 1) \<le> max_retries config" by simp
        with "1.IH" [OF True \<open>func attempt = Inl e\<close> _ _ Inr] go
        have "attempt + 1 + 1 \<le> calls (retry_loop ops config func rnd (attempt + 1) (Some e) (zs @ [delay]))"
          by simp
        with True \<open>func attempt = Inl e\<close> go Inr show ?thesis
          by (subst retry_loop.simps) simp
      qed
    qed
  qed
qed

lemma is_retryable_default:
  "is_retryable (RetryConfig_default ops) e \<longleftrightarrow>
     exc_class e \<in> {MenderConnectionError, MenderTimeoutError, MenderServerError,
                     MenderRateLimitError}"
  by (cases "exc_class e")
     (simp_all add: is_retryable_def RetryConfig_default_def isinstance_def issubclass_def)

lemma handle_error_response_class:
  "exc_class (handle_error_response repr r rid) =
     (let s = resp_status_code r in
      if s = 400 then MenderValidationError
      else if s = 401 then MenderAuthenticationError
      else if s = 403 then MenderAuthorizationError
      else if s = 404 then MenderNotFoundError
      else if s = 409 then MenderConflictError
      else if s = 429 then
        (case headers_get (resp_headers r) ''Retry-After'' of
           None \<Rightarrow> MenderRateLimitError
         | Some ra \<Rightarrow> if ra \<noteq> [] \<and> py_int ra = None then ValueError else MenderRateLimitError)
      else if 500 \<le> s \<and> s < 600 then MenderServerError
      else MenderAPIError)"
  by (simp add: handle_error_response_def Let_def new_MenderValidationError_def
      new_MenderAuthenticationError_def new_MenderAuthorizationError_def
      new_MenderNotFoundError_def new_MenderConflictError_def new_MenderRateLimitError_def
      new_MenderServerError_def new_MenderAPIError_def new_plain_def
      split: option.splits)

lemma py_float_exact: "\<bar>k\<bar> \<le> 2 ^ 53 \<Longrightarrow> py_float k = Inr (real_of_int k)"
proof -
  assume a: "\<bar>k\<bar> \<le> 2 ^ 53"
  then have "nat \<bar>k\<bar> \<le> 2 ^ 53" by (simp add: nat_le_iff)
  moreover have "(2::nat) ^ 53 < 2 ^ 1024" by simp
  ultimately show ?thesis by (simp add: py_float_def Let_def)
qed

section \<open>The backoff delay\<close>

text \<open>
  C1 (as amended). Whenever \<open>calculate_delay\<close> returns a delay \<open>d\<close> (the power has
  not overflowed) for an attempt without a server-suggested delay: with jitter off,
  \<open>d\<close> does not exceed \<open>max_delay\<close>; with jitter on, \<open>d\<close> is a capped value, one that
  does not exceed \<open>max_delay\<close>, multiplied by \<open>0.5 + rnd\<close>, and so may exceed
  \<open>max_delay\<close>. This holds for every float arithmetic whose \<open><\<close> is irreflexive.
\<close>

theorem calculate_delay_bound:
  assumes "calculate_delay ops config rnd attempt None = Inr d"
    and "\<forall>x. \<not> float_lt ops x x"
  shows "(\<not> jitter config \<longrightarrow> \<not> float_lt ops (max_delay config) d)
       \<and> (jitter config \<longrightarrow>
            (\<exists>c. \<not> float_lt ops (max_delay config) c
                \<and> d = float_mul ops c (float_add ops (float_lit ops (1 / 2)) rnd)))"
proof -
  from assms(1) obtain p where p: "float_pow ops (exponential_base config) attempt = Inr p"
    by (auto simp: calculate_delay_def split: sum.splits)
  define c where "c = py_min ops (float_mul ops (base_delay config) p) (max_delay config)"
  have cap: "\<not> float_lt ops (max_delay config) c"
    using assms(2) by (simp add: c_def py_min_def)
  have d: "d = (if jitter config
                then float_mul ops c (float_add ops (float_lit ops (1 / 2)) rnd) else c)"
    using assms(1) p by (auto simp: calculate_delay_def c_def Let_def)
  show ?thesis using cap d by auto
qed

theorem calculate_delay_bound_witness:
  "calculate_delay exact_platform
      ((RetryConfig_default exact_platform)\<lparr>jitter := False\<rparr>) (3 / 4) 6 None = Inr 60
   \<and> (\<forall>x. \<not> float_lt exact_platform x x)
   \<and> \<not> float_lt exact_platform
         (max_delay ((RetryConfig_default exact_platform)\<lparr>jitter := False\<rparr>)) 60
   \<and> calculate_delay exact_platform (RetryConfig_default exact_platform) (3 / 4) 2 None
        = Inr 5
   \<and> (\<exists>c. \<not> float_lt exact_platform (max_delay (RetryConfig_default exact_platform)) c
          \<and> 5 = float_mul exact_platform c
                  (float_add exact_platform (float_lit exact_platform (1 / 2)) (3 / 4)))"
proof -
  let ?off = "(RetryConfig_default exact_platform)\<lparr>jitter := False\<rparr>"
  have h1: "calculate_delay exact_platform ?off (3 / 4) 6 None = Inr 60"
    by (simp add: calculate_delay_def RetryConfig_default_def exact_platform_def py_min_def)
  have h2: "calculate_delay exact_platform (RetryConfig_default exact_platform) (3 / 4) 2 None
        = Inr 5"
    by (simp add: calculate_delay_def RetryConfig_default_def exact_platform_def py_min_def)
  have irr: "\<forall>x. \<not> float_lt exact_platform x x" by (simp add: exact_platform_def)
  have j: "\<not> jitter ?off" "jitter (RetryConfig_default exact_platform)"
    by (simp_all add: RetryConfig_default_def)
  from calculate_delay_bound [OF h1 irr] calculate_delay_bound [OF h2 irr] h1 h2 irr j
  show ?thesis by simp
qed

text \<open>
  C1 as stated fails with jitter on: under the default configuration
  (\<open>max_delay = 60\<close>), attempt 6 with the draw 0.75 gives
  \<open>min(1.0 * 2.0 ** 6, 60.0) * (0.5 + 0.75) = 75.0\<close>.
\<close>

theorem calculate_delay_exceeds_max_delay:
  "calculate_delay exact_platform (RetryConfig_default exact_platform) (3 / 4) 6 None = Inr 75
   \<and> max_delay (RetryConfig_default exact_platform) = 60
   \<and> float_lt exact_platform (max_delay (RetryConfig_default exact_platform)) 75"
  by (simp add: calculate_delay_def RetryConfig_default_def exact_platform_def py_min_def)

text \<open>
  C5 (as amended). A server-suggested delay \<open>k\<close> makes \<open>calculate_delay\<close> return
  \<^verbatim>\<open>float(k)\<close>, whatever the configuration, the attempt and the random draw; that
  is exactly \<open>k\<close> whenever \<open>|k| \<le> 2 ^ 53\<close>. For such a \<open>k\<close>, when an attempt that has
  budget left fails with a retryable rate-limit error carrying \<open>retry_after = k\<close> (and
  neither the log line nor the sleep raises), the loop sleeps exactly \<open>k\<close> seconds and
  goes on to the next attempt.
\<close>

theorem retry_after_overrides_delay:
  "calculate_delay ops config r attempt (Some k) =
     (case py_float k of Inl ex \<Rightarrow> Inl ex | Inr x \<Rightarrow> Inr (float_lit ops x))
   \<and> (\<bar>k\<bar> \<le> 2 ^ 53 \<longrightarrow>
        calculate_delay ops config r attempt (Some k) = Inr (float_lit ops (real_of_int k)))
   \<and> (\<bar>k\<bar> \<le> 2 ^ 53 \<and> int attempt < max_retries config \<and> func attempt = Inl e
        \<and> is_retryable config e \<and> isinstance e MenderRateLimitError
        \<and> retry_after e = Some k \<and> name_error ops = None \<and> str_error ops e = None
        \<and> sleep_error ops (float_lit ops (real_of_int k)) = None \<longrightarrow>
      retry_loop ops config func rnd attempt le zs =
        retry_loop ops config func rnd (attempt + 1) (Some e)
          (zs @ [float_lit ops (real_of_int k)]))"
proof (intro conjI impI)
  show "calculate_delay ops config r attempt (Some k) =
     (case py_float k of Inl ex \<Rightarrow> Inl ex | Inr x \<Rightarrow> Inr (float_lit ops x))"
    by (simp add: calculate_delay_def)
next
  assume "\<bar>k\<bar> \<le> 2 ^ 53"
  then show "calculate_delay ops config r attempt (Some k) = Inr (float_lit ops (real_of_int k))"
    by (simp add: calculate_delay_def py_float_exact)
next
  assume a: "\<bar>k\<bar> \<le> 2 ^ 53 \<and> int attempt < max_retries config \<and> func attempt = Inl e
        \<and> is_retryable config e \<and> isinstance e MenderRateLimitError
        \<and> retry_after e = Some k \<and> name_error ops = None \<and> str_error ops e = None
        \<and> sleep_error ops (float_lit ops (real_of_int k)) = None"
  then have "backoff ops config (rnd attempt) attempt e = Inr (float_lit ops (real_of_int k))"
    by (simp add: backoff_def calculate_delay_def py_float_exact)
  with a show "retry_loop ops config func rnd attempt le zs =
        retry_loop ops config func rnd (attempt + 1) (Some e)
          (zs @ [float_lit ops (real_of_int k)])"
    by (simp add: retry_loop_retries)
qed

theorem retry_after_overrides_delay_witness:
  "slept (retry_with_backoff exact_platform (RetryConfig_default exact_platform)
       (\<lambda>i. if i = 0 then Inl (new_MenderRateLimitError (JStr ''slow down'') JNull None (Some 7))
             else Inr True)
       (\<lambda>i. 3 / 4)) = [7]"
proof -
  let ?c = "RetryConfig_default exact_platform"
  let ?e = "new_MenderRateLimitError (JStr ''slow down'') JNull None (Some 7)"
  let ?f = "\<lambda>i::nat. if i = 0 then Inl ?e else (Inr True :: exn + bool)"
  have r: "is_retryable ?c ?e"
    by (simp add: is_retryable_default new_MenderRateLimitError_def new_MenderAPIError_def)
  have i: "isinstance ?e MenderRateLimitError"
    by (simp add: isinstance_def issubclass_def new_MenderRateLimitError_def new_MenderAPIError_def)
  have k: "retry_after ?e = Some 7"
    by (simp add: new_MenderRateLimitError_def new_MenderAPIError_def)
  have b: "int 0 < max_retries ?c" by (simp add: RetryConfig_default_def)
  have s: "sleep_error exact_platform (float_lit exact_platform (real_of_int 7)) = None"
      "name_error exact_platform = None" "str_error exact_platform ?e = None"
    by (simp_all add: exact_platform_def)
  have sm: "\<bar>7 :: int\<bar> \<le> 2 ^ 53" by simp
  have "retry_loop exact_platform ?c ?f (\<lambda>i. 3 / 4) 0 None [] =
        retry_loop exact_platform ?c ?f (\<lambda>i. 3 / 4) (0 + 1) (Some ?e)
          ([] @ [float_lit exact_platform (real_of_int 7)])"
    using retry_after_overrides_delay [of exact_platform ?c "3 / 4" 0 7 ?f ?e "\<lambda>i. 3 / 4" None "[]"]
      r i k b s sm by simp
  also have "slept \<dots> = [7]"
    by (subst retry_loop.simps) (simp add: RetryConfig_default_def exact_platform_def)
  finally show ?thesis by (simp add: retry_with_backoff_def)
qed

text \<open>
  C5 as stated fails for a \<open>k\<close> that is not a double: \<open>2 ^ 53 + 1\<close> seconds become
  \<^verbatim>\<open>float(9007199254740993) = 9007199254740992.0\<close>.
\<close>

theorem retry_after_rounded:
  "calculate_delay exact_platform (RetryConfig_default exact_platform) (3 / 4) 0
     (Some 9007199254740993) = Inr 9007199254740992"
proof -
  have s: "shift53 9007199254740993 = 1"
    by (subst shift53.simps, subst shift53.simps) simp
  show ?thesis
    by (simp add: calculate_delay_def py_float_def Let_def s exact_platform_def)
qed

section \<open>The retry wrapper\<close>

lemma is_retryable_class:
  "exc_class e = exc_class e' \<Longrightarrow> is_retryable config e = is_retryable config e'"
  by (simp add: is_retryable_def isinstance_def)

lemma backoff_exact_default:
  assumes "i < 3" and "\<not> isinstance e MenderRateLimitError"
  shows "backoff exact_platform (RetryConfig_default exact_platform) (1 / 2) i e
           = Inr (min (2 ^ i) 60)"
proof -
  from assms(1) have "i = 0 \<or> i = 1 \<or> i = 2" by auto
  then show ?thesis
    using assms(2)
    by (auto simp: backoff_def calculate_delay_def RetryConfig_default_def exact_platform_def
        py_min_def)
qed

text \<open>
  C2 (as amended). For a configuration with \<open>max_retries \<ge> 0\<close>: the wrapper calls the
  wrapped operation at most \<open>max_retries + 1\<close> times; if every try raises a retryable
  error, every backoff between two tries completes (the delay is computed, logged and
  slept without an exception) and the name of the wrapped function can be read for the
  final log line, the error of the last try is raised as it is, after exactly
  \<open>max_retries + 1\<close> tries; if \<open>MenderServerError\<close> is retryable, the first
  \<open>max_retries\<close> tries fail with a 503 server error, each backoff completes and the
  next try succeeds, that success is returned; and \<open>max_retries + 1\<close> consecutive 503
  failures, under the conditions of the second part, surface a 503
  \<open>MenderServerError\<close>.
\<close>

theorem retry_with_backoff_budget:
  assumes "0 \<le> max_retries config"
  shows "int (calls (retry_with_backoff ops config func rnd)) \<le> max_retries config + 1
    \<and> (name_error ops = None
        \<and> (\<forall>i. int i \<le> max_retries config \<longrightarrow>
            (\<exists>e. func i = Inl e \<and> is_retryable config e
                 \<and> (int i < max_retries config \<longrightarrow>
                      (\<exists>d. backoff ops config (rnd i) i e = Inr d)))) \<longrightarrow>
         outcome (retry_with_backoff ops config func rnd) = func (nat (max_retries config))
         \<and> calls (retry_with_backoff ops config func rnd) = nat (max_retries config) + 1)
    \<and> (MenderServerError \<in> set (retryable_exceptions config)
        \<and> (\<forall>i. int i < max_retries config \<longrightarrow>
               (\<exists>e d. func i = Inl e \<and> exc_class e = MenderServerError
                      \<and> status_code e = Some 503
                      \<and> backoff ops config (rnd i) i e = Inr d))
        \<and> func (nat (max_retries config)) = Inr v \<longrightarrow>
         outcome (retry_with_backoff ops config func rnd) = Inr v
         \<and> calls (retry_with_backoff ops config func rnd) = nat (max_retries config) + 1)
    \<and> (name_error ops = None
        \<and> (\<forall>i. int i \<le> max_retries config \<longrightarrow>
               (\<exists>e. func i = Inl e \<and> exc_class e = MenderServerError
                    \<and> status_code e = Some 503
                    \<and> (int i < max_retries config \<longrightarrow>
                         (\<exists>d. backoff ops config (rnd i) i e = Inr d)))) \<longrightarrow>
         (\<exists>e. outcome (retry_with_backoff ops config func rnd) = Inl e
              \<and> exc_class e = MenderServerError \<and> status_code e = Some 503))"
proof (intro conjI impI)
  show "int (calls (retry_with_backoff ops config func rnd)) \<le> max_retries config + 1"
    unfolding retry_with_backoff_def using assms by (intro retry_loop_calls_upper) simp
next
  assume a0: "name_error ops = None
        \<and> (\<forall>i. int i \<le> max_retries config \<longrightarrow>
            (\<exists>e. func i = Inl e \<and> is_retryable config e
                 \<and> (int i < max_retries config \<longrightarrow>
                      (\<exists>d. backoff ops config (rnd i) i e = Inr d))))"
  then have ne: "name_error ops = None" and a: "\<forall>i. int i \<le> max_retries config \<longrightarrow>
            (\<exists>e. func i = Inl e \<and> is_retryable config e
                 \<and> (int i < max_retries config \<longrightarrow>
                      (\<exists>d. backoff ops config (rnd i) i e = Inr d)))"
    by simp_all
  have "outcome (retry_loop ops config func rnd 0 None []) = func (nat (max_retries config))
      \<and> calls (retry_loop ops config func rnd 0 None []) = nat (max_retries config) + 1"
  proof (intro retry_loop_stops_at)
    show "\<forall>i. 0 \<le> i \<and> i < nat (max_retries config) \<longrightarrow>
           (\<exists>e d. func i = Inl e \<and> is_retryable config e
                  \<and> backoff ops config (rnd i) i e = Inr d)"
    proof (intro allI impI)
      fix i assume "0 \<le> i \<and> i < nat (max_retries config)"
      then have "int i < max_retries config" by simp
      with a show "\<exists>e d. func i = Inl e \<and> is_retryable config e
                  \<and> backoff ops config (rnd i) i e = Inr d"
        by (metis less_le)
    qed
  qed (use assms ne in auto)
  then show "outcome (retry_with_backoff ops config func rnd) = func (nat (max_retries config))"
    and "calls (retry_with_backoff ops config func rnd) = nat (max_retries config) + 1"
    by (simp_all add: retry_with_backoff_def)
next
  assume a: "MenderServerError \<in> set (retryable_exceptions config)
        \<and> (\<forall>i. int i < max_retries config \<longrightarrow>
               (\<exists>e d. func i = Inl e \<and> exc_class e = MenderServerError
                      \<and> status_code e = Some 503
                      \<and> backoff ops config (rnd i) i e = Inr d))
        \<and> func (nat (max_retries config)) = Inr v"
  have r: "\<And>e. exc_class e = MenderServerError \<Longrightarrow> is_retryable config e"
    using a by (auto simp: is_retryable_def isinstance_def issubclass_def)
  have "outcome (retry_loop ops config func rnd 0 None []) = func (nat (max_retries config))
      \<and> calls (retry_loop ops config func rnd 0 None []) = nat (max_retries config) + 1"
  proof (intro retry_loop_stops_at)
    show "\<forall>i. 0 \<le> i \<and> i < nat (max_retries config) \<longrightarrow>
           (\<exists>e d. func i = Inl e \<and> is_retryable config e
                  \<and> backoff ops config (rnd i) i e = Inr d)"
    proof (intro allI impI)
      fix i assume "0 \<le> i \<and> i < nat (max_retries config)"
      then have "int i < max_retries config" by simp
      with a obtain e d where "func i = Inl e" "exc_class e = MenderServerError"
          "backoff ops config (rnd i) i e = Inr d" by blast
      with r show "\<exists>e d. func i = Inl e \<and> is_retryable config e
                  \<and> backoff ops config (rnd i) i e = Inr d"
        by blast
    qed
  qed (use assms a in auto)
  with a show "outcome (retry_with_backoff ops config func rnd) = Inr v"
    and "calls (retry_with_backoff ops config func rnd) = nat (max_retries config) + 1"
    by (simp_all add: retry_with_backoff_def)
next
  assume a0: "name_error ops = None
        \<and> (\<forall>i. int i \<le> max_retries config \<longrightarrow>
               (\<exists>e. func i = Inl e \<and> exc_class e = MenderServerError
                    \<and> status_code e = Some 503
                    \<and> (int i < max_retries config \<longrightarrow>
                         (\<exists>d. backoff ops config (rnd i) i e = Inr d))))"
  then have ne: "name_error ops = None" and a: "\<forall>i. int i \<le> max_retries config \<longrightarrow>
               (\<exists>e. func i = Inl e \<and> exc_class e = MenderServerError
                    \<and> status_code e = Some 503
                    \<and> (int i < max_retries config \<longrightarrow>
                         (\<exists>d. backoff ops config (rnd i) i e = Inr d)))"
    by simp_all
  from a assms obtain e0 where e0: "func 0 = Inl e0" "exc_class e0 = MenderServerError"
      "status_code e0 = Some 503"
    by (metis of_nat_0)
  from a assms obtain el where el: "func (nat (max_retries config)) = Inl el"
      "exc_class el = MenderServerError" "status_code el = Some 503"
    by (metis nat_0_le order_refl)
  show "\<exists>e. outcome (retry_with_backoff ops config func rnd) = Inl e
              \<and> exc_class e = MenderServerError \<and> status_code e = Some 503"
  proof (cases "is_retryable config e0")
    case True
    have "outcome (retry_loop ops config func rnd 0 None []) = func (nat (max_retries config))
      \<and> calls (retry_loop ops config func rnd 0 None []) = nat (max_retries config) + 1"
    proof (intro retry_loop_stops_at)
      show "\<forall>i. 0 \<le> i \<and> i < nat (max_retries config) \<longrightarrow>
           (\<exists>e d. func i = Inl e \<and> is_retryable config e
                  \<and> backoff ops config (rnd i) i e = Inr d)"
      proof (intro allI impI)
        fix i assume "0 \<le> i \<and> i < nat (max_retries config)"
        then have lt: "int i < max_retries config" by simp
        with a obtain e d where e: "func i = Inl e" "exc_class e = MenderServerError"
            "backoff ops config (rnd i) i e = Inr d" by (metis less_le)
        from e(2) e0(2) True have "is_retryable config e"
          using is_retryable_class [of e e0 config] by simp
        with e show "\<exists>e d. func i = Inl e \<and> is_retryable config e
                  \<and> backoff ops config (rnd i) i e = Inr d"
          by blast
      qed
    qed (use assms ne in auto)
    with el show ?thesis by (simp add: retry_with_backoff_def)
  next
    case False
    have "retry_loop ops config func rnd 0 None [] =
          \<lparr>outcome = func 0, calls = 0 + 1, slept = []\<rparr>"
      using assms e0 False by (intro retry_loop_ends) auto
    with e0 show ?thesis by (simp add: retry_with_backoff_def)
  qed
qed

theorem retry_with_backoff_budget_witness:
  "0 \<le> max_retries (RetryConfig_default exact_platform)
   \<and> outcome (http_call exact_platform (\<lambda>j. ''{}'') ''https://hosted.mender.io'' ''/devices''
        (\<lambda>i. if i < 3
              then Returned \<lparr>resp_status_code = 503, resp_headers = [], resp_json = None,
                             resp_text = ''unavailable''\<rparr>
              else Returned \<lparr>resp_status_code = 200, resp_headers = [],
                             resp_json = Some (JArr []), resp_text = ''[]''\<rparr>)
        (\<lambda>i. 1 / 2))
     = Inr \<lparr>resp_status_code = 200, resp_headers = [], resp_json = Some (JArr []),
            resp_text = ''[]''\<rparr>
   \<and> calls (http_call exact_platform (\<lambda>j. ''{}'') ''https://hosted.mender.io'' ''/devices''
        (\<lambda>i. if i < 3
              then Returned \<lparr>resp_status_code = 503, resp_headers = [], resp_json = None,
                             resp_text = ''unavailable''\<rparr>
              else Returned \<lparr>resp_status_code = 200, resp_headers = [],
                             resp_json = Some (JArr []), resp_text = ''[]''\<rparr>)
        (\<lambda>i. 1 / 2)) = 4"
proof -
  let ?c = "RetryConfig_default exact_platform"
  let ?r503 = "\<lparr>resp_status_code = 503, resp_headers = [], resp_json = None,
                 resp_text = ''unavailable''\<rparr>"
  let ?r200 = "\<lparr>resp_status_code = 200, resp_headers = [], resp_json = Some (JArr []),
                 resp_text = ''[]''\<rparr>"
  let ?e = "new_MenderServerError (JStr ''unavailable'') 503 (JStr ''unavailable'') None"
  let ?func = "\<lambda>i::nat. request (\<lambda>j. ''{}'') ''https://hosted.mender.io'' ''/devices''
                 (if i < 3 then Returned ?r503 else Returned ?r200)"
  have h: "0 \<le> max_retries ?c" and mr: "max_retries ?c = 3"
    by (simp_all add: RetryConfig_default_def)
  have s: "MenderServerError \<in> set (retryable_exceptions ?c)"
    by (simp add: RetryConfig_default_def)
  have e503: "request (\<lambda>j. ''{}'') ''https://hosted.mender.io'' ''/devices'' (Returned ?r503)
        = Inl ?e"
    by (simp add: request_def is_success_def handle_error_response_def
        extract_error_message_def py_str_def headers_get_def Let_def)
  have cls: "exc_class ?e = MenderServerError" "status_code ?e = Some 503"
      "\<not> isinstance ?e MenderRateLimitError"
    by (simp_all add: new_MenderServerError_def new_MenderAPIError_def isinstance_def
        issubclass_def)
  have f: "\<forall>i. int i < max_retries ?c \<longrightarrow>
             (\<exists>e d. ?func i = Inl e \<and> exc_class e = MenderServerError
                    \<and> status_code e = Some 503
                    \<and> backoff exact_platform ?c ((\<lambda>i. 1 / 2) i) i e = Inr d)"
  proof (intro allI impI)
    fix i :: nat assume "int i < max_retries ?c"
    then have i: "i < 3" by (simp add: mr)
    then have "?func i = Inl ?e" using e503 by simp
    moreover have "backoff exact_platform ?c (1 / 2) i ?e = Inr (min (2 ^ i) 60)"
      using i cls(3) by (rule backoff_exact_default)
    ultimately show "\<exists>e d. ?func i = Inl e \<and> exc_class e = MenderServerError
                    \<and> status_code e = Some 503
                    \<and> backoff exact_platform ?c ((\<lambda>i. 1 / 2) i) i e = Inr d"
      using cls by blast
  qed
  have g: "?func (nat (max_retries ?c)) = Inr ?r200"
    by (simp add: mr request_def is_success_def)
  from retry_with_backoff_budget [OF h, of exact_platform ?func "\<lambda>i. 1 / 2" ?r200,
      THEN conjunct2, THEN conjunct2, THEN conjunct1] s f g h
  show ?thesis
    by (simp add: http_call_def mr)
qed

text \<open>
  C2 as stated fails when a backoff raises: with \<open>exponential_base = 2.0 ** 600\<close> in an
  otherwise default configuration and a 503 on every try, the power overflows in the
  third iteration, so the wrapper raises \<open>OverflowError\<close> after three tries instead of
  the server error after four.
\<close>

theorem retry_with_backoff_overflow:
  "is_retryable ((RetryConfig_default exact_platform)\<lparr>exponential_base := 2 ^ 600\<rparr>)
     (new_MenderServerError (JStr ''unavailable'') 503 JNull None)
   \<and> outcome (retry_with_backoff exact_platform
                ((RetryConfig_default exact_platform)\<lparr>exponential_base := 2 ^ 600\<rparr>)
                (\<lambda>i. Inl (new_MenderServerError (JStr ''unavailable'') 503 JNull None)
                   :: exn + bool)
                (\<lambda>i. 1 / 2))
     = Inl (new_plain OverflowError
              (''(34, '' @ [CHR 0x27] @ ''Numerical result out of range'' @ [CHR 0x27] @ '')''))
   \<and> calls (retry_with_backoff exact_platform
                ((RetryConfig_default exact_platform)\<lparr>exponential_base := 2 ^ 600\<rparr>)
                (\<lambda>i. Inl (new_MenderServerError (JStr ''unavailable'') 503 JNull None)
                   :: exn + bool)
                (\<lambda>i. 1 / 2)) = 3"
proof -
  let ?c = "(RetryConfig_default exact_platform)\<lparr>exponential_base := 2 ^ 600\<rparr>"
  let ?e = "new_MenderServerError (JStr ''unavailable'') 503 JNull None"
  let ?func = "\<lambda>i::nat. (Inl ?e :: exn + bool)"
  let ?ov = "new_plain OverflowError
              (''(34, '' @ [CHR 0x27] @ ''Numerical result out of range'' @ [CHR 0x27] @ '')'')"
  have r: "is_retryable ?c ?e"
    by (simp add: is_retryable_def RetryConfig_default_def isinstance_def issubclass_def
        new_MenderServerError_def new_MenderAPIError_def)
  have nrl: "\<not> isinstance ?e MenderRateLimitError"
    by (simp add: isinstance_def issubclass_def new_MenderServerError_def new_MenderAPIError_def)
  have mr: "max_retries (RetryConfig_default exact_platform) = 3"
    by (simp add: RetryConfig_default_def)
  have b0: "backoff exact_platform ?c (1 / 2) 0 ?e = Inr 1"
    using nrl by (simp add: backoff_def calculate_delay_def RetryConfig_default_def
        exact_platform_def py_min_def)
  have p1: "(2::real) ^ 600 < 2 ^ 1024" "(60::real) < 2 ^ 600" by simp_all
  have b1: "backoff exact_platform ?c (1 / 2) 1 ?e = Inr 60"
    using nrl p1 by (simp add: backoff_def calculate_delay_def RetryConfig_default_def
        exact_platform_def py_min_def)
  have p2: "(2::real) ^ 1024 \<le> \<bar>(2 ^ 600) ^ 2\<bar>" by simp
  have b2: "backoff exact_platform ?c (1 / 2) 2 ?e = Inl ?ov"
    using nrl p2 by (simp add: backoff_def calculate_delay_def RetryConfig_default_def
        exact_platform_def)
  have s0: "retry_loop exact_platform ?c ?func (\<lambda>i. 1 / 2) 0 None []
      = retry_loop exact_platform ?c ?func (\<lambda>i. 1 / 2) (Suc 0) (Some ?e) [1]"
    using retry_loop_retries [of 0 ?c ?func ?e exact_platform "\<lambda>i. 1 / 2" 1 None "[]"]
      r b0 mr by simp
  have s1: "retry_loop exact_platform ?c ?func (\<lambda>i. 1 / 2) (Suc 0) (Some ?e) [1]
      = retry_loop exact_platform ?c ?func (\<lambda>i. 1 / 2) (Suc (Suc 0)) (Some ?e) [1, 60]"
    using retry_loop_retries [of "Suc 0" ?c ?func ?e exact_platform "\<lambda>i. 1 / 2" 60
        "Some ?e" "[1]"]
      r b1 [unfolded One_nat_def] mr by simp
  have s2: "retry_loop exact_platform ?c ?func (\<lambda>i. 1 / 2) (Suc (Suc 0)) (Some ?e) [1, 60]
      = \<lparr>outcome = Inl ?ov, calls = 3, slept = [1, 60]\<rparr>"
    using retry_loop_backoff_raises [of "Suc (Suc 0)" ?c ?func ?e exact_platform
        "\<lambda>i. 1 / 2" ?ov "Some ?e" "[1, 60]"]
      r b2 [unfolded numeral_2_eq_2] mr by simp
  have fin: "retry_with_backoff exact_platform ?c ?func (\<lambda>i. 1 / 2)
      = \<lparr>outcome = Inl ?ov, calls = 3, slept = [1, 60]\<rparr>"
    unfolding retry_with_backoff_def s0 s1 s2 by (rule refl)
  show ?thesis unfolding fin using r by simp
qed

lemma py_int_long:
  "py_int ''1000000000000000000000000000000000000000000000000000000000000000000000000000000000000000000000000000000000000000000000000000000000000000000000000000000000000000000000000000000000000000000000000000000000000000000000000000000000000000000000000000000000000000000000000000000000000000000000000000000000000000000000'' = Some (10 ^ 309)"
  by (simp add: py_int_def strip_def to_ascii_def c_isspace_def is_digit_def parse_limited_def)

text \<open>
  C3 (as amended). Under the default configuration an error is caught for a retry
  exactly when it is a \<open>MenderConnectionError\<close>, a \<open>MenderTimeoutError\<close>, a
  \<open>MenderServerError\<close> or a \<open>MenderRateLimitError\<close>. The errors the classifier raises
  for the statuses 400, 401, 403, 404 and 409 are not retryable, those for 500 to 599
  are. An error that is not retryable, raised by any try \<open>m\<close> of the budget, ends the
  call at once with that error, after \<open>m + 1\<close> tries; a retryable error raised by a try
  that is not the last of the budget is followed by another try if its backoff
  completes (the delay is computed, logged and slept without an exception). (The tries
  before \<open>m\<close> are those of a run that reaches \<open>m\<close>: retryable failures whose backoff
  completed.)
\<close>

theorem default_retry_eligibility:
  "(is_retryable (RetryConfig_default ops) e \<longleftrightarrow>
      exc_class e \<in> {MenderConnectionError, MenderTimeoutError, MenderServerError,
                      MenderRateLimitError})
   \<and> (resp_status_code r \<in> {400, 401, 403, 404, 409} \<longrightarrow>
        \<not> is_retryable (RetryConfig_default ops) (handle_error_response repr r rid))
   \<and> (500 \<le> resp_status_code r \<and> resp_status_code r < 600 \<longrightarrow>
        is_retryable (RetryConfig_default ops) (handle_error_response repr r rid))
   \<and> (m \<le> 3
        \<and> (\<forall>i<m. \<exists>e' d. func i = Inl e' \<and> is_retryable (RetryConfig_default ops) e'
                       \<and> backoff ops (RetryConfig_default ops) (rnd i) i e' = Inr d)
        \<and> func m = Inl e \<and> \<not> is_retryable (RetryConfig_default ops) e \<longrightarrow>
        outcome (retry_with_backoff ops (RetryConfig_default ops) func rnd) = Inl e
        \<and> calls (retry_with_backoff ops (RetryConfig_default ops) func rnd) = m + 1)
   \<and> (m < 3
        \<and> (\<forall>i<m. \<exists>e' d. func i = Inl e' \<and> is_retryable (RetryConfig_default ops) e'
                       \<and> backoff ops (RetryConfig_default ops) (rnd i) i e' = Inr d)
        \<and> func m = Inl e \<and> is_retryable (RetryConfig_default ops) e
        \<and> (\<exists>d. backoff ops (RetryConfig_default ops) (rnd m) m e = Inr d) \<longrightarrow>
        m + 2 \<le> calls (retry_with_backoff ops (RetryConfig_default ops) func rnd))"
proof (intro conjI impI)
  show "is_retryable (RetryConfig_default ops) e \<longleftrightarrow>
      exc_class e \<in> {MenderConnectionError, MenderTimeoutError, MenderServerError,
                      MenderRateLimitError}"
    by (rule is_retryable_default)
next
  assume "resp_status_code r \<in> {400, 401, 403, 404, 409}"
  then show "\<not> is_retryable (RetryConfig_default ops) (handle_error_response repr r rid)"
    by (auto simp: is_retryable_default handle_error_response_class)
next
  assume "500 \<le> resp_status_code r \<and> resp_status_code r < 600"
  then show "is_retryable (RetryConfig_default ops) (handle_error_response repr r rid)"
    by (auto simp: is_retryable_default handle_error_response_class)
next
  assume a: "m \<le> 3
        \<and> (\<forall>i<m. \<exists>e' d. func i = Inl e' \<and> is_retryable (RetryConfig_default ops) e'
                       \<and> backoff ops (RetryConfig_default ops) (rnd i) i e' = Inr d)
        \<and> func m = Inl e \<and> \<not> is_retryable (RetryConfig_default ops) e"
  have mr: "max_retries (RetryConfig_default ops) = 3" by (simp add: RetryConfig_default_def)
  have "outcome (retry_loop ops (RetryConfig_default ops) func rnd 0 None []) = func m
      \<and> calls (retry_loop ops (RetryConfig_default ops) func rnd 0 None []) = m + 1"
    using a mr by (intro retry_loop_stops_at) auto
  with a show "outcome (retry_with_backoff ops (RetryConfig_default ops) func rnd) = Inl e"
    and "calls (retry_with_backoff ops (RetryConfig_default ops) func rnd) = m + 1"
    by (simp_all add: retry_with_backoff_def)
next
  assume a: "m < 3
        \<and> (\<forall>i<m. \<exists>e' d. func i = Inl e' \<and> is_retryable (RetryConfig_default ops) e'
                       \<and> backoff ops (RetryConfig_default ops) (rnd i) i e' = Inr d)
        \<and> func m = Inl e \<and> is_retryable (RetryConfig_default ops) e
        \<and> (\<exists>d. backoff ops (RetryConfig_default ops) (rnd m) m e = Inr d)"
  have mr: "max_retries (RetryConfig_default ops) = 3" by (simp add: RetryConfig_default_def)
  have "\<forall>i. 0 \<le> i \<and> i < m + 1 \<longrightarrow>
          (\<exists>e d. func i = Inl e \<and> is_retryable (RetryConfig_default ops) e
                 \<and> backoff ops (RetryConfig_default ops) (rnd i) i e = Inr d)"
    using a by (metis Suc_eq_plus1 less_Suc_eq)
  moreover have "int (m + 1) \<le> max_retries (RetryConfig_default ops)" using a mr by simp
  ultimately obtain le' zs' where
    "retry_loop ops (RetryConfig_default ops) func rnd 0 None [] =
     retry_loop ops (RetryConfig_default ops) func rnd (m + 1) le' zs'"
    using retry_loop_advance [of 0 "m + 1" "RetryConfig_default ops" func ops rnd None "[]"]
    by auto
  moreover have "m + 1 + 1 \<le>
      calls (retry_loop ops (RetryConfig_default ops) func rnd (m + 1) le' zs')"
    using a mr by (intro retry_loop_calls_lower) simp
  ultimately show "m + 2 \<le> calls (retry_with_backoff ops (RetryConfig_default ops) func rnd)"
    by (simp add: retry_with_backoff_def)
qed

theorem default_retry_eligibility_witness:
  "\<not> is_retryable (RetryConfig_default exact_platform)
       (handle_error_response (\<lambda>j. ''{}'')
          \<lparr>resp_status_code = 404, resp_headers = [], resp_json = None,
            resp_text = ''no such device''\<rparr> None)
   \<and> is_retryable (RetryConfig_default exact_platform)
       (handle_error_response (\<lambda>j. ''{}'')
          \<lparr>resp_status_code = 503, resp_headers = [], resp_json = None,
            resp_text = ''unavailable''\<rparr> None)
   \<and> outcome (http_call exact_platform (\<lambda>j. ''{}'') ''https://hosted.mender.io'' ''/devices/7''
        (\<lambda>i. if i = 0 then TimeoutException
              else Returned \<lparr>resp_status_code = 404, resp_headers = [], resp_json = None,
                             resp_text = ''no such device''\<rparr>)
        (\<lambda>i. 1 / 2))
     = Inl (new_MenderNotFoundError (JStr ''no such device'') (JStr ''no such device'') None)
   \<and> calls (http_call exact_platform (\<lambda>j. ''{}'') ''https://hosted.mender.io'' ''/devices/7''
        (\<lambda>i. if i = 0 then TimeoutException
              else Returned \<lparr>resp_status_code = 404, resp_headers = [], resp_json = None,
                             resp_text = ''no such device''\<rparr>)
        (\<lambda>i. 1 / 2)) = 2
   \<and> 2 \<le> calls (http_call exact_platform (\<lambda>j. ''{}'') ''https://hosted.mender.io''
        ''/devices/7'' (\<lambda>i. ConnectError) (\<lambda>i. 1 / 2))"
proof -
  let ?c = "RetryConfig_default exact_platform"
  let ?r404 = "\<lparr>resp_status_code = 404, resp_headers = [], resp_json = None,
                 resp_text = ''no such device''\<rparr>"
  let ?r503 = "\<lparr>resp_status_code = 503, resp_headers = [], resp_json = None,
                 resp_text = ''unavailable''\<rparr>"
  let ?req = "request (\<lambda>j. ''{}'') ''https://hosted.mender.io'' ''/devices/7''"
  let ?func = "\<lambda>i::nat. ?req (if i = 0 then TimeoutException else Returned ?r404)"
  let ?nf = "new_MenderNotFoundError (JStr ''no such device'') (JStr ''no such device'') None"
  let ?to = "new_plain MenderTimeoutError ''Request to /devices/7 timed out''"
  let ?ce = "new_plain MenderConnectionError ''Failed to connect to https://hosted.mender.io''"
  note t404 = default_retry_eligibility [of exact_platform ?nf ?r404 "\<lambda>j. ''{}''" None 1 ?func
      "\<lambda>i. 1 / 2"]
  note t503 = default_retry_eligibility [of exact_platform ?ce ?r503 "\<lambda>j. ''{}''" None 0
      "\<lambda>i. ?req ConnectError" "\<lambda>i. 1 / 2"]
  note tto = default_retry_eligibility [of exact_platform ?to ?r404 "\<lambda>j. ''{}''" None 1 ?func
      "\<lambda>i. 1 / 2"]
  have a: "\<not> is_retryable ?c (handle_error_response (\<lambda>j. ''{}'') ?r404 None)"
    using t404 [THEN conjunct2, THEN conjunct1] by simp
  have b: "is_retryable ?c (handle_error_response (\<lambda>j. ''{}'') ?r503 None)"
    using t503 [THEN conjunct2, THEN conjunct2, THEN conjunct1] by simp
  have f0: "?func 0 = Inl ?to" by (simp add: request_def)
  have f1: "?func 1 = Inl ?nf"
    by (simp add: request_def is_success_def handle_error_response_def
        extract_error_message_def py_str_def headers_get_def Let_def)
  have rto: "is_retryable ?c ?to"
    using tto [THEN conjunct1] by (simp add: new_plain_def)
  have rnf: "\<not> is_retryable ?c ?nf"
    using t404 [THEN conjunct1]
    by (simp add: new_MenderNotFoundError_def new_MenderAPIError_def)
  have rce: "is_retryable ?c ?ce"
    using t503 [THEN conjunct1] by (simp add: new_plain_def)
  have nrl: "\<not> isinstance ?to MenderRateLimitError" "\<not> isinstance ?ce MenderRateLimitError"
    by (simp_all add: isinstance_def issubclass_def new_plain_def)
  have bto: "backoff exact_platform ?c (1 / 2) 0 ?to = Inr (min (2 ^ 0) 60)"
    using nrl(1) by (intro backoff_exact_default) simp_all
  have bce: "backoff exact_platform ?c (1 / 2) 0 ?ce = Inr (min (2 ^ 0) 60)"
    using nrl(2) by (intro backoff_exact_default) simp_all
  have pre: "\<forall>i<1. \<exists>e' d. ?func i = Inl e' \<and> is_retryable ?c e'
                \<and> backoff exact_platform ?c ((\<lambda>i. 1 / 2) i) i e' = Inr d"
    using f0 rto bto by simp
  have c: "outcome (retry_with_backoff exact_platform ?c ?func (\<lambda>i. 1 / 2)) = Inl ?nf
         \<and> calls (retry_with_backoff exact_platform ?c ?func (\<lambda>i. 1 / 2)) = 1 + 1"
    using t404 [THEN conjunct2, THEN conjunct2, THEN conjunct2, THEN conjunct1] pre f1 rnf
    by simp
  have ce: "?req ConnectError = Inl ?ce" by (simp add: request_def)
  have d: "0 + 2 \<le> calls (retry_with_backoff exact_platform ?c (\<lambda>i. ?req ConnectError)
                        (\<lambda>i. 1 / 2))"
    using t503 [THEN conjunct2, THEN conjunct2, THEN conjunct2, THEN conjunct2] rce ce bce
    by simp
  from a b c d show ?thesis by (simp add: http_call_def)
qed

text \<open>
  C3 as stated fails for a rate-limit error whose delay cannot be computed: a 429
  response with a \<open>Retry-After\<close> of 310 digits is classified as a
  \<open>MenderRateLimitError\<close> and caught for a retry, but \<^verbatim>\<open>float(retry_after)\<close> raises
  \<open>OverflowError\<close>, which ends the call after one try.
\<close>

theorem rate_limit_not_retried:
  "request (\<lambda>j. ''{}'') ''https://hosted.mender.io'' ''/devices''
       (Returned \<lparr>resp_status_code = 429,
                   resp_headers = [(''Retry-After'', ''1000000000000000000000000000000000000000000000000000000000000000000000000000000000000000000000000000000000000000000000000000000000000000000000000000000000000000000000000000000000000000000000000000000000000000000000000000000000000000000000000000000000000000000000000000000000000000000000000000000000000000000000'')],
                   resp_json = None, resp_text = ''slow down''\<rparr>)
     = Inl (new_MenderRateLimitError (JStr ''slow down'') (JStr ''slow down'') None
              (Some (10 ^ 309)))
   \<and> is_retryable (RetryConfig_default exact_platform)
        (new_MenderRateLimitError (JStr ''slow down'') (JStr ''slow down'') None
           (Some (10 ^ 309)))
   \<and> outcome (http_call exact_platform (\<lambda>j. ''{}'') ''https://hosted.mender.io'' ''/devices''
        (\<lambda>i. Returned \<lparr>resp_status_code = 429,
                   resp_headers = [(''Retry-After'', ''1000000000000000000000000000000000000000000000000000000000000000000000000000000000000000000000000000000000000000000000000000000000000000000000000000000000000000000000000000000000000000000000000000000000000000000000000000000000000000000000000000000000000000000000000000000000000000000000000000000000000000000000'')],
                   resp_json = None, resp_text = ''slow down''\<rparr>)
        (\<lambda>i. 1 / 2))
     = Inl (new_plain OverflowError ''int too large to convert to float'')
   \<and> calls (http_call exact_platform (\<lambda>j. ''{}'') ''https://hosted.mender.io'' ''/devices''
        (\<lambda>i. Returned \<lparr>resp_status_code = 429,
                   resp_headers = [(''Retry-After'', ''1000000000000000000000000000000000000000000000000000000000000000000000000000000000000000000000000000000000000000000000000000000000000000000000000000000000000000000000000000000000000000000000000000000000000000000000000000000000000000000000000000000000000000000000000000000000000000000000000000000000000000000000'')],
                   resp_json = None, resp_text = ''slow down''\<rparr>)
        (\<lambda>i. 1 / 2)) = 1"
proof -
  let ?c = "RetryConfig_default exact_platform"
  let ?z = "''1000000000000000000000000000000000000000000000000000000000000000000000000000000000000000000000000000000000000000000000000000000000000000000000000000000000000000000000000000000000000000000000000000000000000000000000000000000000000000000000000000000000000000000000000000000000000000000000000000000000000000000000''"
  let ?r = "\<lparr>resp_status_code = 429, resp_headers = [(''Retry-After'', ?z)],
              resp_json = None, resp_text = ''slow down''\<rparr>"
  let ?e = "new_MenderRateLimitError (JStr ''slow down'') (JStr ''slow down'') None
              (Some (10 ^ 309))"
  let ?ov = "new_plain OverflowError ''int too large to convert to float''"
  let ?func = "\<lambda>i::nat. request (\<lambda>j. ''{}'') ''https://hosted.mender.io'' ''/devices''
                 (Returned ?r)"
  have hg: "headers_get [(''Retry-After'', ?z)] ''Retry-After'' = Some ?z"
    by (simp add: headers_get_def)
  have hx: "headers_get [(''Retry-After'', ?z)] ''X-Request-Id'' = None"
    by (simp add: headers_get_def lower_def lower_char_def)
  have q: "request (\<lambda>j. ''{}'') ''https://hosted.mender.io'' ''/devices'' (Returned ?r) = Inl ?e"
    unfolding request_def handle_error_response_def
    by (simp add: is_success_def hg hx py_int_long extract_error_message_def py_str_def Let_def
        del: list.inject)
  have r: "is_retryable ?c ?e"
    by (simp add: is_retryable_default new_MenderRateLimitError_def new_MenderAPIError_def)
  have i: "isinstance ?e MenderRateLimitError" "retry_after ?e = Some (10 ^ 309)"
    by (simp_all add: isinstance_def issubclass_def new_MenderRateLimitError_def
        new_MenderAPIError_def)
  have big: "(2::nat) ^ 1024 \<le> nat \<bar>10 ^ 309 :: int\<bar>" by simp
  have pf: "py_float (10 ^ 309) = Inl ?ov"
    unfolding py_float_def Let_def using big by simp
  have cd: "calculate_delay exact_platform ?c (1 / 2) 0 (Some (10 ^ 309)) = Inl ?ov"
    unfolding calculate_delay_def by (simp only: option.case pf sum.case)
  have bo: "backoff exact_platform ?c (1 / 2) 0 ?e = Inl ?ov"
    unfolding backoff_def by (simp only: i if_True cd sum.case)
  have mr: "int 0 < max_retries ?c" by (simp add: RetryConfig_default_def)
  have "retry_loop exact_platform ?c ?func (\<lambda>i. 1 / 2) 0 None []
      = \<lparr>outcome = Inl ?ov, calls = 0 + 1, slept = []\<rparr>"
    using mr q r bo by (intro retry_loop_backoff_raises) simp_all
  then have fin: "http_call exact_platform (\<lambda>j. ''{}'') ''https://hosted.mender.io'' ''/devices''
        (\<lambda>i. Returned ?r) (\<lambda>i. 1 / 2) = \<lparr>outcome = Inl ?ov, calls = 0 + 1, slept = []\<rparr>"
    by (simp only: http_call_def retry_with_backoff_def)
  show ?thesis unfolding fin q using r by simp
qed

section \<open>The total count of a page\<close>









end
